theory Spec2Isabelle
  imports Complex_Main "HOL-Library.Word" "HOL-Library.Sublist"
begin

section \<open>JavaScript values\<close>

text \<open>
  The server of \<^verbatim>\<open>src/server/index.js\<close> is one Express process with three
  routes. Its inputs are JSON bodies, environment variables and the answers of the
  \<^verbatim>\<open>@google/generative-ai\<close> client library. A JavaScript string is a sequence of
  UTF-16 code units; \<open>js\<close> embeds an ASCII literal.
\<close>

type_synonym jsstring = "16 word list"

definition js :: "string \<Rightarrow> jsstring" where
  "js = map of_char"

text \<open>
  A value as \<^verbatim>\<open>JSON.parse\<close> builds it, plus \<^verbatim>\<open>undefined\<close>, which reading a
  missing property yields. A number is given by its numeric value; the handlers only
  test numbers for being zero. An object lists its own properties, each key once.
\<close>

datatype jsval =
    JUndefined
  | JNull
  | JBool bool
  | JNum rat
  | JStr jsstring
  | JArr "jsval list"
  | JObj "(jsstring \<times> jsval) list"

text \<open>ToBoolean, as \<^verbatim>\<open>!x\<close>, \<^verbatim>\<open>x || y\<close> and \<^verbatim>\<open>x && y\<close> apply it.\<close>

fun truthy :: "jsval \<Rightarrow> bool" where
  "truthy JUndefined = False"
| "truthy JNull = False"
| "truthy (JBool b) = b"
| "truthy (JNum n) = (n \<noteq> 0)"
| "truthy (JStr s) = (s \<noteq> [])"
| "truthy (JArr xs) = True"
| "truthy (JObj kvs) = True"

text \<open>
  A thrown error, with the \<^verbatim>\<open>message\<close> the catch blocks read. \<open>TypeError\<close> and
  \<open>ReferenceError\<close> are raised by the language itself (their texts are those of
  Node's engine); \<open>LibraryError\<close> is anything the client library or \<^verbatim>\<open>fetch\<close>
  throws or rejects with.
\<close>

datatype exn = TypeError jsstring | ReferenceError jsstring | LibraryError jsstring

fun exn_message :: "exn \<Rightarrow> jsstring" where
  "exn_message (TypeError m) = m"
| "exn_message (ReferenceError m) = m"
| "exn_message (LibraryError m) = m"

text \<open>
  Reading a property \<^verbatim>\<open>v.k\<close> for the names the handlers read (\<^verbatim>\<open>message\<close>,
  \<^verbatim>\<open>history\<close>, \<^verbatim>\<open>role\<close>, \<^verbatim>\<open>content\<close>, \<^verbatim>\<open>text\<close>, \<^verbatim>\<open>models\<close>), none
  of which a prototype defines: an object answers with its own property, every other
  value but \<^verbatim>\<open>null\<close> and \<^verbatim>\<open>undefined\<close> with \<^verbatim>\<open>undefined\<close>, and those two throw.
\<close>

definition quoted :: "jsstring \<Rightarrow> jsstring" where
  "quoted k = [0x27] @ k @ [0x27]"

definition get_prop :: "jsval \<Rightarrow> jsstring \<Rightarrow> exn + jsval" where
  "get_prop v k =
     (case v of
        JUndefined \<Rightarrow>
          Inl (TypeError (js ''Cannot read properties of undefined (reading '' @ quoted k @ js '')''))
      | JNull \<Rightarrow>
          Inl (TypeError (js ''Cannot read properties of null (reading '' @ quoted k @ js '')''))
      | JObj kvs \<Rightarrow> (case map_of kvs k of None \<Rightarrow> Inr JUndefined | Some x \<Rightarrow> Inr x)
      | _ \<Rightarrow> Inr JUndefined)"

text \<open>
  \<^verbatim>\<open>String.prototype.includes\<close>: the search string occurs as a run of consecutive
  code units. Code units are compared as they are, so the search is case-sensitive.
\<close>

fun str_includes :: "jsstring \<Rightarrow> jsstring \<Rightarrow> bool" where
  "str_includes [] t = (t = [])"
| "str_includes (c # cs) t = (prefix t (c # cs) \<or> str_includes cs t)"

text \<open>
  \<^verbatim>\<open>String.prototype.trim\<close> strips the white space and line terminator code units
  of the language from both ends.
\<close>

definition is_whitespace :: "16 word \<Rightarrow> bool" where
  "is_whitespace c \<longleftrightarrow>
     c \<in> set [0x09, 0x0A, 0x0B, 0x0C, 0x0D, 0x20, 0xA0, 0x1680, 0x2028, 0x2029, 0x202F,
               0x205F, 0x3000, 0xFEFF]
     \<or> (0x2000 \<le> c \<and> c \<le> 0x200A)"

definition trim :: "jsstring \<Rightarrow> jsstring" where
  "trim s = rev (dropWhile is_whitespace (rev (dropWhile is_whitespace s)))"

section \<open>Configuration, library handles and the process state\<close>

text \<open>
  Lines 16-18: the two environment variables (a variable is a string or unset) and the
  pool \<^verbatim>\<open>[apiKey1, apiKey2].filter(Boolean)\<close>, which keeps the non-empty strings.
\<close>

record config =
  GEMINI_API_KEY :: "jsstring option"
  GEMINI_API_KEY_2 :: "jsstring option"

definition apiKeys :: "config \<Rightarrow> jsstring list" where
  "apiKeys cfg = [k. Some k \<leftarrow> [GEMINI_API_KEY cfg, GEMINI_API_KEY_2 cfg], k \<noteq> []]"

text \<open>
  The handles of the client library: a client remembers the key it was built with, a
  model handle its client and model identifier, a chat session its model handle and the
  history it was opened with (\<open>None\<close> for \<^verbatim>\<open>startChat()\<close> without argument). A
  history entry is \<^verbatim>\<open>{role, parts: [{text}]}\<close>.
\<close>

datatype client = Client jsstring

datatype model = Model client jsstring

datatype part = Part jsval

record content =
  role :: jsstring
  parts :: "part list"

datatype chat = Chat model "content list option"

text \<open>What the process does to the outside, in order: console lines and library calls.\<close>

datatype console =
    NoKeyWarning
  | NoKeyHint
  | InitError jsstring
  | Switched nat
  | ErrorDetails exn
  | ErrorMessage jsstring
  | ErrorStack exn
  | RetryFailed exn

datatype event =
    Console console
  | NewClient jsstring
  | GetGenerativeModel client jsstring
  | StartChat model "content list option"
  | SendMessage chat jsval
  | Fetch jsstring

text \<open>
  The code outside the repository, as parameters. Each library call may throw, and its
  answer may depend on everything that happened before (the events so far), so a backend
  can refuse one call and accept the next. \<open>sendMessage\<close> stands for lines 93-95 (send,
  await the response, read its text) and \<open>fetch\<close> for lines 154-155 (fetch, parse the
  JSON). \<open>relational_gt_zero\<close> is the language's \<^verbatim>\<open>v > 0\<close> on a string, array or
  object \<open>v\<close>, which converts \<open>v\<close> to a number first.
\<close>

record world =
  new_GoogleGenerativeAI :: "event list \<Rightarrow> jsstring \<Rightarrow> exn option"
  getGenerativeModel :: "event list \<Rightarrow> client \<Rightarrow> jsstring \<Rightarrow> exn option"
  startChat :: "event list \<Rightarrow> model \<Rightarrow> content list option \<Rightarrow> exn option"
  sendMessage :: "event list \<Rightarrow> chat \<Rightarrow> jsval \<Rightarrow> exn + jsstring"
  fetch :: "event list \<Rightarrow> jsstring \<Rightarrow> exn + jsval"
  relational_gt_zero :: "jsval \<Rightarrow> exn + bool"

text \<open>Lines 26-27: the two module-level variables, and the events so far.\<close>

record proc =
  currentApiKeyIndex :: nat
  genAI :: "client option"
  events :: "event list"

text \<open>An HTTP response: the status and the JSON body.\<close>

datatype reply = Reply nat jsval

section \<open>Start-up and key switching\<close>

text \<open>
  Lines 20-33. The client is built with \<^verbatim>\<open>apiKeys[0] || ''\<close>; when the constructor
  throws, \<^verbatim>\<open>genAI\<close> stays undefined.
\<close>

definition startup :: "world \<Rightarrow> config \<Rightarrow> proc" where
  "startup w cfg =
     (let warn = (if length (apiKeys cfg) = 0 then [Console NoKeyWarning, Console NoKeyHint] else []);
          key = (case apiKeys cfg of [] \<Rightarrow> [] | k # ks \<Rightarrow> k)
      in case new_GoogleGenerativeAI w warn key of
           None \<Rightarrow>
             \<lparr>currentApiKeyIndex = 0, genAI = Some (Client key), events = warn @ [NewClient key]\<rparr>
         | Some e \<Rightarrow>
             \<lparr>currentApiKeyIndex = 0, genAI = None,
              events = warn @ [NewClient key, Console (InitError (exn_message e))]\<rparr>)"

text \<open>
  Lines 36-42. The index is assigned before the constructor runs, so it stays advanced
  when the constructor throws (the exception then leaves \<^verbatim>\<open>switchApiKey\<close>).
\<close>

definition switchApiKey :: "world \<Rightarrow> config \<Rightarrow> proc \<Rightarrow> exn option \<times> proc" where
  "switchApiKey w cfg s =
     (if length (apiKeys cfg) > 1 then
        (let i = (currentApiKeyIndex s + 1) mod length (apiKeys cfg);
             key = apiKeys cfg ! i;
             s1 = s\<lparr>currentApiKeyIndex := i, events := events s @ [NewClient key]\<rparr>
         in case new_GoogleGenerativeAI w (events s) key of
              Some e \<Rightarrow> (Some e, s1)
            | None \<Rightarrow>
                (None, s1\<lparr>genAI := Some (Client key),
                           events := events s1 @ [Console (Switched (i + 1))]\<rparr>))
      else (None, s))"

section \<open>The chat route: the try block (lines 46-100)\<close>

text \<open>
  Line 47, \<^verbatim>\<open>const { message, history = [] } = req.body\<close>: destructuring throws on
  a body that is \<^verbatim>\<open>undefined\<close> or \<^verbatim>\<open>null\<close>; the default replaces only an
  \<^verbatim>\<open>undefined\<close> history.
\<close>

definition destructure :: "jsval \<Rightarrow> exn + jsval \<times> jsval" where
  "destructure body =
     (case body of
        JUndefined \<Rightarrow>
          Inl (TypeError
            (js ''Cannot destructure property 'message' of 'req.body' as it is undefined.''))
      | JNull \<Rightarrow>
          Inl (TypeError
            (js ''Cannot destructure property 'message' of 'req.body' as it is null.''))
      | _ \<Rightarrow>
          (case get_prop body (js ''message'') of
             Inl e \<Rightarrow> Inl e
           | Inr m \<Rightarrow>
               (case get_prop body (js ''history'') of
                  Inl e \<Rightarrow> Inl e
                | Inr h \<Rightarrow> Inr (m, if h = JUndefined then JArr [] else h))))"

text \<open>
  Each library call appends its event; the library's answer is asked with the events
  before the call. A call on the undefined \<^verbatim>\<open>genAI\<close> throws before it reaches the
  library.
\<close>

definition get_model :: "world \<Rightarrow> proc \<Rightarrow> jsstring \<Rightarrow> (exn + model) \<times> proc" where
  "get_model w s name =
     (case genAI s of
        None \<Rightarrow>
          (Inl (TypeError
             (js ''Cannot read properties of undefined (reading 'getGenerativeModel')'')), s)
      | Some c \<Rightarrow>
          (case getGenerativeModel w (events s) c name of
             Some e \<Rightarrow> (Inl e, s\<lparr>events := events s @ [GetGenerativeModel c name]\<rparr>)
           | None \<Rightarrow> (Inr (Model c name), s\<lparr>events := events s @ [GetGenerativeModel c name]\<rparr>)))"

definition start_chat ::
  "world \<Rightarrow> proc \<Rightarrow> model \<Rightarrow> content list option \<Rightarrow> (exn + chat) \<times> proc" where
  "start_chat w s m h =
     (case startChat w (events s) m h of
        Some e \<Rightarrow> (Inl e, s\<lparr>events := events s @ [StartChat m h]\<rparr>)
      | None \<Rightarrow> (Inr (Chat m h), s\<lparr>events := events s @ [StartChat m h]\<rparr>))"

definition send_message :: "world \<Rightarrow> proc \<Rightarrow> chat \<Rightarrow> jsval \<Rightarrow> (exn + jsstring) \<times> proc" where
  "send_message w s c msg =
     (case sendMessage w (events s) c msg of
        Inl e \<Rightarrow> (Inl e, s\<lparr>events := events s @ [SendMessage c msg]\<rparr>)
      | Inr t \<Rightarrow> (Inr t, s\<lparr>events := events s @ [SendMessage c msg]\<rparr>))"

text \<open>Lines 65-75: the nested try/catch over the three model identifiers.\<close>

definition select_model :: "world \<Rightarrow> proc \<Rightarrow> (exn + model) \<times> proc" where
  "select_model w s =
     (case get_model w s (js ''gemini-2.5-flash'') of
        (Inr m, s1) \<Rightarrow> (Inr m, s1)
      | (Inl e, s1) \<Rightarrow>
          (case get_model w s1 (js ''gemini-2.5-pro'') of
             (Inr m, s2) \<Rightarrow> (Inr m, s2)
           | (Inl e2, s2) \<Rightarrow> get_model w s2 (js ''gemini-2.0-flash'')))"

text \<open>
  Lines 80-82, the callback of \<^verbatim>\<open>history.map\<close>: the role is compared with
  \<^verbatim>\<open>===\<close>, the text is \<^verbatim>\<open>msg.content || msg.text || ''\<close>.
\<close>

definition format_turn :: "jsval \<Rightarrow> exn + content" where
  "format_turn msg =
     (case get_prop msg (js ''role'') of
        Inl e \<Rightarrow> Inl e
      | Inr r \<Rightarrow>
          (case get_prop msg (js ''content'') of
             Inl e \<Rightarrow> Inl e
           | Inr c \<Rightarrow>
               (case get_prop msg (js ''text'') of
                  Inl e \<Rightarrow> Inl e
                | Inr t \<Rightarrow>
                    Inr \<lparr>role = (if r = JStr (js ''user'') then js ''user'' else js ''model''),
                         parts = [Part (if truthy c then c else if truthy t then t else JStr [])]\<rparr>)))"

text \<open>
  Line 83, the callback of \<^verbatim>\<open>filter\<close>: \<^verbatim>\<open>msg.parts[0].text.trim() !== ''\<close>.
  Only a string has a \<^verbatim>\<open>trim\<close> method.
\<close>

definition keeps_turn :: "content \<Rightarrow> exn + bool" where
  "keeps_turn m =
     (case parts m of
        [] \<Rightarrow> Inl (TypeError (js ''Cannot read properties of undefined (reading 'text')''))
      | Part v # ps \<Rightarrow>
          (case v of
             JStr s \<Rightarrow> Inr (trim s \<noteq> [])
           | JUndefined \<Rightarrow>
               Inl (TypeError (js ''Cannot read properties of undefined (reading 'trim')''))
           | JNull \<Rightarrow> Inl (TypeError (js ''Cannot read properties of null (reading 'trim')''))
           | _ \<Rightarrow> Inl (TypeError (js ''msg.parts[0].text.trim is not a function''))))"

text \<open>\<^verbatim>\<open>map\<close> and \<^verbatim>\<open>filter\<close> with a callback that may throw: the first throw ends the loop.\<close>

fun map_exn :: "('a \<Rightarrow> exn + 'b) \<Rightarrow> 'a list \<Rightarrow> exn + 'b list" where
  "map_exn f [] = Inr []"
| "map_exn f (x # xs) =
     (case f x of
        Inl e \<Rightarrow> Inl e
      | Inr y \<Rightarrow> (case map_exn f xs of Inl e \<Rightarrow> Inl e | Inr ys \<Rightarrow> Inr (y # ys)))"

fun filter_exn :: "('a \<Rightarrow> exn + bool) \<Rightarrow> 'a list \<Rightarrow> exn + 'a list" where
  "filter_exn p [] = Inr []"
| "filter_exn p (x # xs) =
     (case p x of
        Inl e \<Rightarrow> Inl e
      | Inr b \<Rightarrow>
          (case filter_exn p xs of
             Inl e \<Rightarrow> Inl e
           | Inr ys \<Rightarrow> Inr (if b then x # ys else ys)))"

definition formattedHistory :: "jsval list \<Rightarrow> exn + content list" where
  "formattedHistory h =
     (case map_exn format_turn h of
        Inl e \<Rightarrow> Inl e
      | Inr ms \<Rightarrow> filter_exn keeps_turn ms)"

text \<open>
  Line 79, \<^verbatim>\<open>history && history.length > 0\<close>. A boolean or a number has no
  \<^verbatim>\<open>length\<close>, a string and an array have their own, an object has it as a property
  or not at all.
\<close>

definition gt_zero :: "world \<Rightarrow> jsval \<Rightarrow> exn + bool" where
  "gt_zero w v =
     (case v of
        JUndefined \<Rightarrow> Inr False
      | JNull \<Rightarrow> Inr False
      | JBool b \<Rightarrow> Inr b
      | JNum n \<Rightarrow> Inr (n > 0)
      | _ \<Rightarrow> relational_gt_zero w v)"

definition history_nonempty :: "world \<Rightarrow> jsval \<Rightarrow> exn + bool" where
  "history_nonempty w history =
     (if \<not> truthy history then Inr False
      else case history of
             JStr s \<Rightarrow> Inr (length s > 0)
           | JArr xs \<Rightarrow> Inr (length xs > 0)
           | JObj kvs \<Rightarrow>
               (case map_of kvs (js ''length'') of
                  None \<Rightarrow> Inr False
                | Some v \<Rightarrow> gt_zero w v)
           | _ \<Rightarrow> Inr False)"

text \<open>
  Lines 78-90. Only an array has a \<^verbatim>\<open>map\<close> method; a parsed JSON value is never a
  function, so on anything else \<^verbatim>\<open>history.map(...)\<close> throws.
\<close>

definition open_chat :: "world \<Rightarrow> proc \<Rightarrow> model \<Rightarrow> jsval \<Rightarrow> (exn + chat) \<times> proc" where
  "open_chat w s m history =
     (case history_nonempty w history of
        Inl e \<Rightarrow> (Inl e, s)
      | Inr b \<Rightarrow>
          if b then
            (case history of
               JArr h \<Rightarrow>
                 (case formattedHistory h of
                    Inl e \<Rightarrow> (Inl e, s)
                  | Inr fh \<Rightarrow> start_chat w s m (Some fh))
             | _ \<Rightarrow> (Inl (TypeError (js ''history.map is not a function'')), s))
          else start_chat w s m None)"

text \<open>Lines 46-100: either a response is sent, or an exception reaches the catch block.\<close>

definition try_block :: "world \<Rightarrow> config \<Rightarrow> proc \<Rightarrow> jsval \<Rightarrow> (exn + reply) \<times> proc" where
  "try_block w cfg s body =
     (case destructure body of
        Inl e \<Rightarrow> (Inl e, s)
      | Inr (message, history) \<Rightarrow>
          if \<not> truthy message then
            (Inr (Reply 400 (JObj [(js ''error'', JStr (js ''Message is required'')),
                                   (js ''success'', JBool False)])), s)
          else if length (apiKeys cfg) = 0 then
            (Inr (Reply 500 (JObj
               [(js ''error'',
                 JStr (js ''API key not configured. Please set GEMINI_API_KEY in server/.env file'')),
                (js ''success'', JBool False)])), s)
          else
            (case select_model w s of
               (Inl e, s1) \<Rightarrow> (Inl e, s1)
             | (Inr m, s1) \<Rightarrow>
                 (case open_chat w s1 m history of
                    (Inl e, s2) \<Rightarrow> (Inl e, s2)
                  | (Inr c, s2) \<Rightarrow>
                      (case send_message w s2 c message of
                         (Inl e, s3) \<Rightarrow> (Inl e, s3)
                       | (Inr t, s3) \<Rightarrow>
                           (Inr (Reply 200 (JObj [(js ''message'', JStr t),
                                                  (js ''success'', JBool True)])), s3)))))"

section \<open>The chat route: the catch block (lines 101-140)\<close>

text \<open>Lines 102-104: the three console lines about the caught error.\<close>

definition log_error :: "proc \<Rightarrow> exn \<Rightarrow> proc" where
  "log_error s err =
     s\<lparr>events := events s @
        [Console (ErrorDetails err), Console (ErrorMessage (exn_message err)),
         Console (ErrorStack err)]\<rparr>"

text \<open>Lines 106-113: the text shown to the caller, chosen by the first test that matches.\<close>

definition errorMessage :: "jsstring \<Rightarrow> jsstring" where
  "errorMessage m =
     (if str_includes m (js ''API_KEY'') then
        js ''Invalid or missing API key. Please check your GEMINI_API_KEY in server/.env''
      else if str_includes m (js ''quota'') \<or> str_includes m (js ''429'') then
        js ''API quota exceeded. Please try again later.''
      else if str_includes m (js ''safety'') then
        js ''The message was blocked by safety filters. Please try rephrasing.''
      else js ''Failed to get response from AI'')"

text \<open>Line 116: the condition of the retry.\<close>

definition retry_condition :: "jsstring \<Rightarrow> jsstring list \<Rightarrow> bool" where
  "retry_condition m keys \<longleftrightarrow>
     (str_includes m (js ''quota'') \<or> str_includes m (js ''429'') \<or> str_includes m (js ''API_KEY''))
     \<and> length keys > 1"

text \<open>
  The identifier \<^verbatim>\<open>message\<close> at line 122. Line 47 declares \<^verbatim>\<open>message\<close> and
  \<^verbatim>\<open>history\<close> with \<^verbatim>\<open>const\<close> inside the braces of \<^verbatim>\<open>try\<close>, and a
  \<^verbatim>\<open>const\<close> binding lives in the block that declares it. The catch block is
  another block: in it the bindings are \<^verbatim>\<open>error\<close>, \<^verbatim>\<open>errorMessage\<close> and the
  \<^verbatim>\<open>retry...\<close> constants, around it \<^verbatim>\<open>req\<close> and \<^verbatim>\<open>res\<close>, and at module
  level \<^verbatim>\<open>express\<close>, \<^verbatim>\<open>cors\<close>, \<^verbatim>\<open>dotenv\<close>, \<^verbatim>\<open>GoogleGenerativeAI\<close>,
  \<^verbatim>\<open>app\<close>, \<^verbatim>\<open>PORT\<close>, \<^verbatim>\<open>apiKey1\<close>, \<^verbatim>\<open>apiKey2\<close>, \<^verbatim>\<open>apiKeys\<close>,
  \<^verbatim>\<open>genAI\<close>, \<^verbatim>\<open>currentApiKeyIndex\<close> and \<^verbatim>\<open>switchApiKey\<close>. None of them is
  \<^verbatim>\<open>message\<close>, nothing assigns a global of that name, and Node's global object has
  none. Evaluating the identifier therefore throws a ReferenceError, and it is evaluated
  (as the argument) before \<^verbatim>\<open>sendMessage\<close> is called.
\<close>

definition message_in_catch_block :: "exn + jsval" where
  "message_in_catch_block = Inl (ReferenceError (js ''message is not defined''))"

text \<open>
  Lines 118-124, the body of the inner try: switch the key, take a model handle for the
  first identifier only, open a session without history, send.
\<close>

definition retry :: "world \<Rightarrow> config \<Rightarrow> proc \<Rightarrow> (exn + jsstring) \<times> proc" where
  "retry w cfg s =
     (case switchApiKey w cfg s of
        (Some e, s1) \<Rightarrow> (Inl e, s1)
      | (None, s1) \<Rightarrow>
          (case get_model w s1 (js ''gemini-2.5-flash'') of
             (Inl e, s2) \<Rightarrow> (Inl e, s2)
           | (Inr m, s2) \<Rightarrow>
               (case start_chat w s2 m None of
                  (Inl e, s3) \<Rightarrow> (Inl e, s3)
                | (Inr c, s3) \<Rightarrow>
                    (case message_in_catch_block of
                       Inl e \<Rightarrow> (Inl e, s3)
                     | Inr msg \<Rightarrow> send_message w s3 c msg))))"

text \<open>Lines 135-139: the failure response built from the error the catch block caught.\<close>

definition failure_reply :: "exn \<Rightarrow> reply" where
  "failure_reply err =
     Reply 500 (JObj [(js ''error'', JStr (errorMessage (exn_message err))),
                      (js ''details'', JStr (exn_message err)),
                      (js ''success'', JBool False)])"

definition catch_block :: "world \<Rightarrow> config \<Rightarrow> proc \<Rightarrow> exn \<Rightarrow> reply \<times> proc" where
  "catch_block w cfg s err =
     (if retry_condition (exn_message err) (apiKeys cfg) then
        (case retry w cfg (log_error s err) of
           (Inr t, s2) \<Rightarrow>
             (Reply 200 (JObj [(js ''message'', JStr t), (js ''success'', JBool True)]), s2)
         | (Inl re, s2) \<Rightarrow>
             (failure_reply err, s2\<lparr>events := events s2 @ [Console (RetryFailed re)]\<rparr>))
      else (failure_reply err, log_error s err))"

text \<open>Lines 45-141: \<^verbatim>\<open>POST /api/chat\<close> on the parsed request body.\<close>

definition post_api_chat :: "world \<Rightarrow> config \<Rightarrow> proc \<Rightarrow> jsval \<Rightarrow> reply \<times> proc" where
  "post_api_chat w cfg s body =
     (case try_block w cfg s body of
        (Inr r, s1) \<Rightarrow> (r, s1)
      | (Inl e, s1) \<Rightarrow> catch_block w cfg s1 e)"

section \<open>The other routes and the process\<close>

text \<open>Lines 144-168: \<^verbatim>\<open>GET /api/models\<close> reads the environment variable itself.\<close>

definition models_url :: "jsstring \<Rightarrow> jsstring" where
  "models_url key = js ''https://generativelanguage.googleapis.com/v1/models?key='' @ key"

definition fetch_failed :: "exn \<Rightarrow> reply" where
  "fetch_failed e =
     Reply 500 (JObj [(js ''error'', JStr (js ''Failed to fetch models'')),
                      (js ''details'', JStr (exn_message e)),
                      (js ''success'', JBool False)])"

definition get_api_models :: "world \<Rightarrow> config \<Rightarrow> proc \<Rightarrow> reply \<times> proc" where
  "get_api_models w cfg s =
     (case GEMINI_API_KEY cfg of
        None \<Rightarrow>
          (Reply 500 (JObj [(js ''error'', JStr (js ''API key not configured'')),
                            (js ''success'', JBool False)]), s)
      | Some key \<Rightarrow>
          if key = [] then
            (Reply 500 (JObj [(js ''error'', JStr (js ''API key not configured'')),
                              (js ''success'', JBool False)]), s)
          else
            (case fetch w (events s) (models_url key) of
               Inl e \<Rightarrow> (fetch_failed e, s\<lparr>events := events s @ [Fetch (models_url key)]\<rparr>)
             | Inr data \<Rightarrow>
                 (case get_prop data (js ''models'') of
                    Inl e \<Rightarrow> (fetch_failed e, s\<lparr>events := events s @ [Fetch (models_url key)]\<rparr>)
                  | Inr ms \<Rightarrow>
                      (Reply 200 (JObj [(js ''models'', if truthy ms then ms else JArr []),
                                        (js ''success'', JBool True)]),
                       s\<lparr>events := events s @ [Fetch (models_url key)]\<rparr>))))"

text \<open>Lines 171-173: \<^verbatim>\<open>GET /api/health\<close>.\<close>

definition get_api_health :: "proc \<Rightarrow> reply \<times> proc" where
  "get_api_health s =
     (Reply 200 (JObj [(js ''status'', JStr (js ''OK'')),
                       (js ''message'', JStr (js ''Arivu AI Server is running''))]), s)"

text \<open>The process serves requests one after the other, from the state start-up left.\<close>

datatype request = PostChat jsval | GetModels | GetHealth

fun serve :: "world \<Rightarrow> config \<Rightarrow> proc \<Rightarrow> request \<Rightarrow> reply \<times> proc" where
  "serve w cfg s (PostChat body) = post_api_chat w cfg s body"
| "serve w cfg s GetModels = get_api_models w cfg s"
| "serve w cfg s GetHealth = get_api_health s"

fun run :: "world \<Rightarrow> config \<Rightarrow> proc \<Rightarrow> request list \<Rightarrow> proc" where
  "run w cfg s [] = s"
| "run w cfg s (r # rs) = run w cfg (snd (serve w cfg s r)) rs"

section \<open>The specification's vocabulary\<close>

text \<open>
  The four classes of a backend error (specification, sections 4.1 and 7): the message is
  searched for a substring, and the first rule that matches decides. \<open>sublist t m\<close>
  says that \<open>t\<close> occurs in \<open>m\<close> as a run of consecutive code units.
\<close>

datatype classification =
    InvalidCredentialError
  | QuotaExceededError
  | ContentBlockedError
  | UnknownBackendError

definition spec_classify :: "jsstring \<Rightarrow> classification" where
  "spec_classify m =
     (if sublist (js ''API_KEY'') m then InvalidCredentialError
      else if sublist (js ''quota'') m \<or> sublist (js ''429'') m then QuotaExceededError
      else if sublist (js ''safety'') m then ContentBlockedError
      else UnknownBackendError)"

text \<open>The text the caller reads for each class.\<close>

fun classification_text :: "classification \<Rightarrow> jsstring" where
  "classification_text InvalidCredentialError =
     js ''Invalid or missing API key. Please check your GEMINI_API_KEY in server/.env''"
| "classification_text QuotaExceededError = js ''API quota exceeded. Please try again later.''"
| "classification_text ContentBlockedError =
     js ''The message was blocked by safety filters. Please try rephrasing.''"
| "classification_text UnknownBackendError = js ''Failed to get response from AI''"

text \<open>
  A conversation turn of the specification: a role and a text. On the wire
  (specification, section 6) a turn is \<^verbatim>\<open>{role, content}\<close> or \<^verbatim>\<open>{role, text}\<close>;
  \<open>turn_as_text\<close> says that the text travels in the \<^verbatim>\<open>text\<close> field. The
  sanitization in the specification's words: turns with blank text are dropped, the
  others keep their order, \<^verbatim>\<open>user\<close> stays and every other role becomes
  \<^verbatim>\<open>model\<close>.
\<close>

record turn =
  turn_role :: jsstring
  turn_content :: jsstring
  turn_as_text :: bool

definition turn_json :: "turn \<Rightarrow> jsval" where
  "turn_json t =
     JObj [(js ''role'', JStr (turn_role t)),
           (if turn_as_text t then js ''text'' else js ''content'', JStr (turn_content t))]"

definition spec_sanitize :: "turn list \<Rightarrow> content list" where
  "spec_sanitize ts =
     map (\<lambda>t. \<lparr>role = (if turn_role t = js ''user'' then js ''user'' else js ''model''),
                parts = [Part (JStr (turn_content t))]\<rparr>)
         (filter (\<lambda>t. trim (turn_content t) \<noteq> []) ts)"

text \<open>
  The same over a turn of any JSON shape. A field that is absent reads as
  \<^verbatim>\<open>undefined\<close>; the turn's text is its \<^verbatim>\<open>content\<close>, or else its \<^verbatim>\<open>text\<close>,
  or else the empty string, where "or else" passes over every falsy value. A turn is
  well shaped when it is not \<^verbatim>\<open>null\<close> and that text is a string.
\<close>

definition field :: "jsval \<Rightarrow> jsstring \<Rightarrow> jsval" where
  "field v k = (case v of JObj kvs \<Rightarrow> (case map_of kvs k of None \<Rightarrow> JUndefined | Some x \<Rightarrow> x)
                | _ \<Rightarrow> JUndefined)"

definition turn_text :: "jsval \<Rightarrow> jsval" where
  "turn_text t =
     (if truthy (field t (js ''content'')) then field t (js ''content'')
      else if truthy (field t (js ''text'')) then field t (js ''text'')
      else JStr [])"

definition well_shaped :: "jsval \<Rightarrow> bool" where
  "well_shaped t \<longleftrightarrow>
     t \<noteq> JUndefined \<and> t \<noteq> JNull \<and> (case turn_text t of JStr s \<Rightarrow> True | _ \<Rightarrow> False)"

definition blank_turn :: "jsval \<Rightarrow> bool" where
  "blank_turn t \<longleftrightarrow> (case turn_text t of JStr s \<Rightarrow> trim s = [] | _ \<Rightarrow> False)"

definition sanitized_turn :: "jsval \<Rightarrow> content" where
  "sanitized_turn t =
     \<lparr>role = (if field t (js ''role'') = JStr (js ''user'') then js ''user'' else js ''model''),
      parts = [Part (turn_text t)]\<rparr>"

definition sanitize :: "jsval list \<Rightarrow> content list" where
  "sanitize h = map sanitized_turn (filter (\<lambda>t. \<not> blank_turn t) h)"

text \<open>
  A retry is attempted when, after the error was caught and logged, the handler turns to
  the client library again: some event past the log lines is a library call.
\<close>

fun library_call :: "event \<Rightarrow> bool" where
  "library_call (Console c) = False"
| "library_call ev = True"

definition retry_attempted :: "proc \<Rightarrow> proc \<Rightarrow> bool" where
  "retry_attempted s1 s2 \<longleftrightarrow> list_ex library_call (drop (length (events s1)) (events s2))"

section \<open>Configurations and backends of the scenarios\<close>

definition no_keys :: config where
  "no_keys = \<lparr>GEMINI_API_KEY = None, GEMINI_API_KEY_2 = None\<rparr>"

definition one_key :: config where
  "one_key = \<lparr>GEMINI_API_KEY = Some (js ''key-1''), GEMINI_API_KEY_2 = None\<rparr>"

definition two_keys :: config where
  "two_keys = \<lparr>GEMINI_API_KEY = Some (js ''key-1''), GEMINI_API_KEY_2 = Some (js ''key-2'')\<rparr>"

text \<open>A backend that accepts every call and answers every message with \<^verbatim>\<open>pong\<close>.\<close>

definition echo_world :: world where
  "echo_world =
     \<lparr>new_GoogleGenerativeAI = (\<lambda>evs k. None),
      getGenerativeModel = (\<lambda>evs c n. None),
      startChat = (\<lambda>evs m h. None),
      sendMessage = (\<lambda>evs c msg. Inr (js ''pong'')),
      fetch = (\<lambda>evs url. Inr (JObj [(js ''models'', JArr [JStr (js ''gemini-2.5-flash'')])])),
      relational_gt_zero = (\<lambda>v. Inr False)\<rparr>"

text \<open>
  A backend whose quota is exhausted for the first key only: a message sent under
  \<^verbatim>\<open>key-1\<close> is refused, a message sent under any other key is answered.
\<close>

definition quota_on_first_key :: world where
  "quota_on_first_key =
     \<lparr>new_GoogleGenerativeAI = (\<lambda>evs k. None),
      getGenerativeModel = (\<lambda>evs c n. None),
      startChat = (\<lambda>evs m h. None),
      sendMessage = (\<lambda>evs c msg.
         case c of Chat (Model (Client k) n) h \<Rightarrow>
           if k = js ''key-1'' then Inl (LibraryError (js ''429 quota exceeded''))
           else Inr (js ''hello from key 2'')),
      fetch = (\<lambda>evs url. Inl (LibraryError (js ''fetch failed''))),
      relational_gt_zero = (\<lambda>v. Inr False)\<rparr>"

text \<open>The request body \<^verbatim>\<open>{"message": "hi"}\<close>.\<close>

definition hi_body :: jsval where
  "hi_body = JObj [(js ''message'', JStr (js ''hi''))]"

text \<open>The request body \<^verbatim>\<open>{"message": msg, "history": h}\<close>.\<close>

definition chat_body :: "jsval \<Rightarrow> jsval list \<Rightarrow> jsval" where
  "chat_body msg h = JObj [(js ''message'', msg), (js ''history'', JArr h)]"

text \<open>The request body \<^verbatim>\<open>{"message": "   "}\<close>: three spaces.\<close>

definition blank_body :: jsval where
  "blank_body = JObj [(js ''message'', JStr (js ''   ''))]"

text \<open>
  A backend that refuses every message for lack of quota, whatever the key. Its answer
  to the model list request is an error as well: an HTTP error status with an error
  document as body. \<^verbatim>\<open>fetch\<close> resolves for every HTTP status and
  \<^verbatim>\<open>response.json()\<close> parses the body, so lines 154-155 return that document.
\<close>

definition no_quota_left :: world where
  "no_quota_left =
     \<lparr>new_GoogleGenerativeAI = (\<lambda>evs k. None),
      getGenerativeModel = (\<lambda>evs c n. None),
      startChat = (\<lambda>evs m h. None),
      sendMessage = (\<lambda>evs c msg. Inl (LibraryError (js ''429 quota exceeded''))),
      fetch = (\<lambda>evs url.
         Inr (JObj [(js ''error'',
                     JObj [(js ''code'', JNum 429), (js ''status'', JStr (js ''RESOURCE_EXHAUSTED''))])])),
      relational_gt_zero = (\<lambda>v. Inr False)\<rparr>"

text \<open>The key index is a valid index into the pool (index 0 when the pool is empty).\<close>

definition cursor_in_range :: "config \<Rightarrow> proc \<Rightarrow> bool" where
  "cursor_in_range cfg s \<longleftrightarrow> currentApiKeyIndex s < max 1 (length (apiKeys cfg))"

section \<open>Basic facts\<close>

lemmas handler_defs = post_api_chat_def try_block_def catch_block_def retry_def switchApiKey_def
  startup_def destructure_def get_prop_def select_model_def get_model_def start_chat_def
  send_message_def open_chat_def history_nonempty_def gt_zero_def formattedHistory_def
  format_turn_def keeps_turn_def log_error_def failure_reply_def errorMessage_def
  retry_condition_def message_in_catch_block_def apiKeys_def quoted_def Let_def

lemma str_includes_sublist: "str_includes s t \<longleftrightarrow> sublist t s"
  by (induction s) (auto simp: sublist_Cons_right)

lemmas classify_eval = spec_classify_def js_def str_includes_sublist [symmetric]

lemma errorMessage_spec: "errorMessage m = classification_text (spec_classify m)"
  by (simp add: errorMessage_def spec_classify_def str_includes_sublist)

lemma retry_condition_spec:
  "retry_condition m keys \<longleftrightarrow>
     (spec_classify m = InvalidCredentialError \<or> spec_classify m = QuotaExceededError)
     \<and> length keys > 1"
  by (auto simp: retry_condition_def spec_classify_def str_includes_sublist)

lemma post_api_chat_caught:
  "try_block w cfg s body = (Inl e, s1) \<Longrightarrow> post_api_chat w cfg s body = catch_block w cfg s1 e"
  by (simp add: post_api_chat_def)

text \<open>The library wrappers only append events and leave the key index alone.\<close>

lemma get_model_events: "get_model w s n = (r, s') \<Longrightarrow> \<exists>rest. events s' = events s @ rest"
  by (auto simp: get_model_def split: option.splits)

lemma start_chat_events: "start_chat w s m h = (r, s') \<Longrightarrow> \<exists>rest. events s' = events s @ rest"
  by (auto simp: start_chat_def split: option.splits)

lemma get_model_index:
  "get_model w s n = (r, s') \<Longrightarrow> currentApiKeyIndex s' = currentApiKeyIndex s"
  by (auto simp: get_model_def split: option.splits)

lemma start_chat_index:
  "start_chat w s m h = (r, s') \<Longrightarrow> currentApiKeyIndex s' = currentApiKeyIndex s"
  by (auto simp: start_chat_def split: option.splits)

lemma switchApiKey_events:
  "length (apiKeys cfg) > 1 \<Longrightarrow> switchApiKey w cfg s = (r, s') \<Longrightarrow>
   \<exists>rest. events s' =
     events s @ NewClient (apiKeys cfg ! ((currentApiKeyIndex s + 1) mod length (apiKeys cfg))) # rest"
  by (auto simp: switchApiKey_def Let_def split: option.splits)

lemma switchApiKey_index:
  "length (apiKeys cfg) > 1 \<Longrightarrow> switchApiKey w cfg s = (r, s') \<Longrightarrow>
   currentApiKeyIndex s' = (currentApiKeyIndex s + 1) mod length (apiKeys cfg)"
  by (auto simp: switchApiKey_def Let_def split: option.splits)

text \<open>
  The inner try never yields a text: whatever the library answers, the last step before
  the send is the unbound identifier.
\<close>

lemma retry_throws: "\<exists>re s2. retry w cfg s = (Inl re, s2)"
  by (simp add: retry_def message_in_catch_block_def split: prod.splits option.splits sum.splits)

lemma retry_effect:
  assumes "length (apiKeys cfg) > 1" and "retry w cfg s = (r, s')"
  shows "(\<exists>rest. events s' =
            events s @ NewClient (apiKeys cfg ! ((currentApiKeyIndex s + 1) mod length (apiKeys cfg))) # rest)
         \<and> currentApiKeyIndex s' = (currentApiKeyIndex s + 1) mod length (apiKeys cfg)"
proof -
  obtain r1 s1 where sw: "switchApiKey w cfg s = (r1, s1)"
    by (cases "switchApiKey w cfg s")
  from switchApiKey_events[OF assms(1) sw] obtain rest1 where
    e1: "events s1 =
      events s @ NewClient (apiKeys cfg ! ((currentApiKeyIndex s + 1) mod length (apiKeys cfg))) # rest1"
    by blast
  note i1 = switchApiKey_index[OF assms(1) sw]
  show ?thesis
  proof (cases r1)
    case (Some e)
    with sw assms(2) have "s' = s1" by (simp add: retry_def)
    with e1 i1 show ?thesis by blast
  next
    case None
    obtain r2 s2 where gm: "get_model w s1 (js ''gemini-2.5-flash'') = (r2, s2)"
      by (cases "get_model w s1 (js ''gemini-2.5-flash'')")
    from get_model_events[OF gm] obtain rest2 where e2: "events s2 = events s1 @ rest2"
      by blast
    note i2 = get_model_index[OF gm]
    show ?thesis
    proof (cases r2)
      case (Inl e)
      with None sw gm assms(2) have "s' = s2" by (simp add: retry_def)
      with e1 e2 i1 i2 show ?thesis by simp
    next
      case (Inr m)
      obtain r3 s3 where sc: "start_chat w s2 m None = (r3, s3)"
        by (cases "start_chat w s2 m None")
      from start_chat_events[OF sc] obtain rest3 where e3: "events s3 = events s2 @ rest3"
        by blast
      note i3 = start_chat_index[OF sc]
      from Inr None sw gm sc assms(2) have "s' = s3"
        by (simp add: retry_def message_in_catch_block_def split: sum.splits)
      with e1 e2 e3 i1 i2 i3 show ?thesis by simp
    qed
  qed
qed

text \<open>Sanitizing a history: when the two loops succeed and what they return.\<close>

lemma map_exn_Inr: "(\<And>x. x \<in> set xs \<Longrightarrow> f x = Inr (g x)) \<Longrightarrow> map_exn f xs = Inr (map g xs)"
  by (induction xs) simp_all

lemma filter_exn_Inr:
  "(\<And>x. x \<in> set xs \<Longrightarrow> p x = Inr (q x)) \<Longrightarrow> filter_exn p xs = Inr (filter q xs)"
  by (induction xs) simp_all

lemma map_exn_Inl:
  "x \<in> set xs \<Longrightarrow> f x = Inl e \<Longrightarrow> \<exists>e'. map_exn f xs = Inl e'"
  by (induction xs) (auto split: sum.splits)

lemma filter_exn_Inl:
  "x \<in> set xs \<Longrightarrow> p x = Inl e \<Longrightarrow> \<exists>e'. filter_exn p xs = Inl e'"
  by (induction xs) (auto split: sum.splits)

lemma map_exn_error: "map_exn f xs = Inl e \<Longrightarrow> \<exists>x \<in> set xs. f x = Inl e"
  by (induction xs) (auto split: sum.splits)

lemma filter_exn_error: "filter_exn p xs = Inl e \<Longrightarrow> \<exists>x \<in> set xs. p x = Inl e"
  by (induction xs) (auto split: sum.splits)

lemma get_prop_field:
  "t \<noteq> JUndefined \<Longrightarrow> t \<noteq> JNull \<Longrightarrow> get_prop t k = Inr (field t k)"
  by (cases t) (simp_all add: get_prop_def field_def split: option.splits)

lemma format_turn_ok:
  "t \<noteq> JUndefined \<Longrightarrow> t \<noteq> JNull \<Longrightarrow> format_turn t = Inr (sanitized_turn t)"
  by (simp add: format_turn_def get_prop_field sanitized_turn_def turn_text_def)

lemma format_turn_null:
  "t = JUndefined \<or> t = JNull \<Longrightarrow> \<exists>m. format_turn t = Inl (TypeError m)"
  by (auto simp: format_turn_def get_prop_def)

lemma format_turn_error: "format_turn t = Inl e \<Longrightarrow> \<exists>m. e = TypeError m"
  by (cases t) (auto simp: format_turn_def get_prop_def split: option.splits)

lemma turn_text_cases: "turn_text t \<noteq> JUndefined \<and> turn_text t \<noteq> JNull"
  by (auto simp: turn_text_def)

lemma keeps_turn_sanitized:
  "keeps_turn (sanitized_turn t) =
     (case turn_text t of JStr s \<Rightarrow> Inr (trim s \<noteq> [])
      | _ \<Rightarrow> Inl (TypeError (js ''msg.parts[0].text.trim is not a function'')))"
  using turn_text_cases [of t]
  by (cases "turn_text t") (simp_all add: keeps_turn_def sanitized_turn_def)

lemma keeps_turn_ok: "well_shaped t \<Longrightarrow> keeps_turn (sanitized_turn t) = Inr (\<not> blank_turn t)"
  by (auto simp: keeps_turn_sanitized well_shaped_def blank_turn_def split: jsval.splits)

lemma keeps_turn_error: "keeps_turn c = Inl e \<Longrightarrow> \<exists>m. e = TypeError m"
  by (auto simp: keeps_turn_def split: list.splits part.splits jsval.splits)

lemma formattedHistory_ok:
  assumes "list_all well_shaped h"
  shows "formattedHistory h = Inr (sanitize h)"
proof -
  have m: "map_exn format_turn h = Inr (map sanitized_turn h)"
    using assms by (intro map_exn_Inr format_turn_ok) (auto simp: list_all_iff well_shaped_def)
  have "filter_exn keeps_turn (map sanitized_turn h) =
          Inr (map sanitized_turn (filter (\<lambda>t. \<not> blank_turn t) h))"
    using assms
  proof (induction h)
    case Nil
    then show ?case by simp
  next
    case (Cons t h)
    then show ?case by (simp add: keeps_turn_ok)
  qed
  with m show ?thesis by (simp add: formattedHistory_def sanitize_def)
qed

lemma formattedHistory_error: "formattedHistory h = Inl e \<Longrightarrow> \<exists>m. e = TypeError m"
  by (auto simp: formattedHistory_def split: sum.splits
      dest!: map_exn_error filter_exn_error dest: format_turn_error keeps_turn_error)

lemma formattedHistory_throws:
  assumes "\<not> list_all well_shaped h"
  shows "\<exists>m. formattedHistory h = Inl (TypeError m)"
proof -
  from assms obtain t where t: "t \<in> set h" "\<not> well_shaped t" by (auto simp: list_all_iff)
  have "\<exists>e. formattedHistory h = Inl e"
  proof (cases "\<exists>x \<in> set h. x = JUndefined \<or> x = JNull")
    case True
    then obtain x where "x \<in> set h" "x = JUndefined \<or> x = JNull" by blast
    with format_turn_null[of x] map_exn_Inl[of x h format_turn]
    obtain e' where "map_exn format_turn h = Inl e'" by blast
    then show ?thesis by (simp add: formattedHistory_def)
  next
    case False
    then have m: "map_exn format_turn h = Inr (map sanitized_turn h)"
      by (intro map_exn_Inr format_turn_ok) auto
    from False t have "\<exists>e. keeps_turn (sanitized_turn t) = Inl e"
      by (auto simp: keeps_turn_sanitized well_shaped_def split: jsval.splits)
    then obtain e where "keeps_turn (sanitized_turn t) = Inl e" by blast
    with filter_exn_Inl[of "sanitized_turn t" "map sanitized_turn h" keeps_turn e] t(1)
    obtain e' where "filter_exn keeps_turn (map sanitized_turn h) = Inl e'" by auto
    with m show ?thesis by (simp add: formattedHistory_def)
  qed
  then show ?thesis using formattedHistory_error by blast
qed

lemma well_shaped_turn_json: "well_shaped (turn_json t)"
  by (simp add: well_shaped_def turn_json_def turn_text_def field_def js_def)

lemma sanitize_turn_json: "sanitize (map turn_json ts) = spec_sanitize ts"
proof -
  have r: "field (turn_json t) (js ''role'') = JStr (turn_role t)" for t
    by (simp add: turn_json_def field_def js_def)
  have x: "turn_text (turn_json t) = JStr (turn_content t)" for t
    by (simp add: turn_json_def turn_text_def field_def js_def)
  show ?thesis
    by (induction ts) (simp_all add: sanitize_def spec_sanitize_def sanitized_turn_def blank_turn_def r x)
qed

text \<open>
  The try block on a body with a truthy message and a non-empty array as history, once a
  model handle is there: the session is opened with the formatted history, and when that
  succeeds the message is sent on that session.
\<close>

lemma destructure_chat_body: "destructure (chat_body msg h) = Inr (msg, JArr h)"
  by (simp add: destructure_def chat_body_def get_prop_def js_def)

lemma try_block_history:
  assumes "truthy msg" and "apiKeys cfg \<noteq> []" and "select_model w s = (Inr mdl, s1)"
    and "h \<noteq> []" and "formattedHistory h = Inr fh"
  shows "events (snd (try_block w cfg s (chat_body msg h))) =
           events s1 @ StartChat mdl (Some fh) #
             (case startChat w (events s1) mdl (Some fh) of
                Some e \<Rightarrow> []
              | None \<Rightarrow> [SendMessage (Chat mdl (Some fh)) msg])"
proof -
  have o: "open_chat w s1 mdl (JArr h) = start_chat w s1 mdl (Some fh)"
    using assms(4,5) by (simp add: open_chat_def history_nonempty_def)
  show ?thesis
    using assms(1,2,3)
    by (simp add: try_block_def destructure_chat_body o start_chat_def send_message_def
        split: option.splits sum.splits)
qed

text \<open>Whatever the catch block does comes after the events of the try block.\<close>

lemma post_api_chat_events:
  "\<exists>rest. events (snd (post_api_chat w cfg s body)) = events (snd (try_block w cfg s body)) @ rest"
proof -
  obtain r s1 where t: "try_block w cfg s body = (r, s1)" by (cases "try_block w cfg s body")
  show ?thesis
  proof (cases r)
    case (Inr x)
    with t show ?thesis by (simp add: post_api_chat_def)
  next
    case (Inl e)
    show ?thesis
    proof (cases "retry_condition (exn_message e) (apiKeys cfg)")
      case False
      with t Inl show ?thesis by (simp add: post_api_chat_def catch_block_def log_error_def)
    next
      case True
      then have len: "length (apiKeys cfg) > 1" by (simp add: retry_condition_def)
      obtain rr s2 where r: "retry w cfg (log_error s1 e) = (rr, s2)"
        by (cases "retry w cfg (log_error s1 e)")
      from retry_effect[OF len r] obtain rest where
        "events s2 = events (log_error s1 e) @ rest" by blast
      then have "\<exists>rest. events s2 = events s1 @ rest" by (simp add: log_error_def)
      with t Inl True r show ?thesis
        by (cases rr) (auto simp: post_api_chat_def catch_block_def)
    qed
  qed
qed

text \<open>The key index changes in \<^verbatim>\<open>switchApiKey\<close> only, and stays in range.\<close>

lemma send_message_index:
  "send_message w s c m = (r, s') \<Longrightarrow> currentApiKeyIndex s' = currentApiKeyIndex s"
  by (auto simp: send_message_def split: sum.splits)

lemma select_model_index:
  "select_model w s = (r, s') \<Longrightarrow> currentApiKeyIndex s' = currentApiKeyIndex s"
  by (auto simp: select_model_def split: prod.splits sum.splits dest!: get_model_index)

lemma open_chat_index:
  "open_chat w s m h = (r, s') \<Longrightarrow> currentApiKeyIndex s' = currentApiKeyIndex s"
  by (auto simp: open_chat_def split: sum.splits if_splits jsval.splits dest!: start_chat_index)

lemma try_block_index:
  "try_block w cfg s body = (r, s') \<Longrightarrow> currentApiKeyIndex s' = currentApiKeyIndex s"
  by (auto simp: try_block_def split: sum.splits prod.splits if_splits
      dest!: select_model_index open_chat_index send_message_index)

lemma mod_in_pool: "1 < n \<Longrightarrow> m mod n < (n::nat)"
  by simp

lemma switchApiKey_inv:
  "cursor_in_range cfg s \<Longrightarrow> cursor_in_range cfg (snd (switchApiKey w cfg s))"
  by (auto simp: cursor_in_range_def switchApiKey_def Let_def mod_in_pool split: option.splits)

lemma catch_block_inv:
  assumes "cursor_in_range cfg s"
  shows "cursor_in_range cfg (snd (catch_block w cfg s e))"
proof (cases "retry_condition (exn_message e) (apiKeys cfg)")
  case True
  then have len: "length (apiKeys cfg) > 1" by (simp add: retry_condition_def)
  obtain r s2 where r: "retry w cfg (log_error s e) = (r, s2)"
    by (cases "retry w cfg (log_error s e)")
  from retry_effect[OF len r] have "currentApiKeyIndex s2 < length (apiKeys cfg)"
    using len by (simp add: mod_in_pool)
  with True r len show ?thesis
    by (auto simp: catch_block_def cursor_in_range_def split: sum.splits)
next
  case False
  with assms show ?thesis by (simp add: catch_block_def log_error_def cursor_in_range_def)
qed

lemma post_api_chat_inv:
  assumes "cursor_in_range cfg s"
  shows "cursor_in_range cfg (snd (post_api_chat w cfg s body))"
proof -
  obtain r s1 where t: "try_block w cfg s body = (r, s1)" by (cases "try_block w cfg s body")
  from try_block_index[OF t] assms have i: "cursor_in_range cfg s1"
    by (simp add: cursor_in_range_def)
  show ?thesis
  proof (cases r)
    case (Inl e)
    with t catch_block_inv[OF i] show ?thesis by (simp add: post_api_chat_def)
  next
    case (Inr x)
    with t i show ?thesis by (simp add: post_api_chat_def)
  qed
qed

lemma get_api_models_index:
  "currentApiKeyIndex (snd (get_api_models w cfg s)) = currentApiKeyIndex s"
  by (simp add: get_api_models_def split: option.splits sum.splits)

lemma serve_inv: "cursor_in_range cfg s \<Longrightarrow> cursor_in_range cfg (snd (serve w cfg s r))"
proof (cases r)
  case (PostChat body)
  assume "cursor_in_range cfg s"
  with PostChat show ?thesis by (simp add: post_api_chat_inv)
next
  case GetModels
  assume "cursor_in_range cfg s"
  with GetModels show ?thesis by (simp add: cursor_in_range_def get_api_models_index)
next
  case GetHealth
  assume "cursor_in_range cfg s"
  with GetHealth show ?thesis by (simp add: get_api_health_def)
qed

lemma run_inv: "cursor_in_range cfg s \<Longrightarrow> cursor_in_range cfg (run w cfg s reqs)"
  by (induction reqs arbitrary: s) (simp_all add: serve_inv)

lemma startup_index: "currentApiKeyIndex (startup w cfg) = 0"
  by (simp add: startup_def Let_def split: option.splits)

section \<open>Error classification\<close>

text \<open>
  Claim C1. Every error the chat handler catches is classified by searching its raw
  message for substrings, code unit by code unit (so case-sensitively), and the first
  rule that matches wins: \<^verbatim>\<open>API_KEY\<close> gives InvalidCredentialError; otherwise
  \<^verbatim>\<open>quota\<close> or \<^verbatim>\<open>429\<close> gives QuotaExceededError; otherwise \<^verbatim>\<open>safety\<close> gives
  ContentBlockedError; otherwise UnknownBackendError. The text the code picks (lines
  106-113) is the text of that class, the failure response (lines 135-139) carries it
  beside the raw message, and the four texts differ, so the response tells the class.
\<close>

theorem C1_error_classification:
  "errorMessage m = classification_text (spec_classify m)
   \<and> failure_reply e =
       Reply 500 (JObj [(js ''error'', JStr (classification_text (spec_classify (exn_message e)))),
                        (js ''details'', JStr (exn_message e)),
                        (js ''success'', JBool False)])
   \<and> (classification_text a = classification_text b \<longleftrightarrow> a = b)"
proof -
  have "classification_text a = classification_text b \<longleftrightarrow> a = b"
    by (cases a; cases b) (simp_all add: js_def)
  then show ?thesis by (simp add: errorMessage_spec failure_reply_def)
qed

text \<open>
  The examples of the specification, one message with two matches (the first rule wins)
  and one that differs from a match only in case.
\<close>

theorem C1_witness:
  "errorMessage (js ''429 quota exceeded'') = classification_text QuotaExceededError
   \<and> errorMessage (js ''invalid API_KEY'') = classification_text InvalidCredentialError
   \<and> errorMessage (js ''connection reset'') = classification_text UnknownBackendError
   \<and> errorMessage (js ''blocked for safety'') = classification_text ContentBlockedError
   \<and> errorMessage (js ''quota of this API_KEY'') = classification_text InvalidCredentialError
   \<and> errorMessage (js ''Quota of this api_key'') = classification_text UnknownBackendError"
proof -
  have q: "spec_classify (js ''429 quota exceeded'') = QuotaExceededError"
    and i: "spec_classify (js ''invalid API_KEY'') = InvalidCredentialError"
    and u: "spec_classify (js ''connection reset'') = UnknownBackendError"
    and c: "spec_classify (js ''blocked for safety'') = ContentBlockedError"
    and f: "spec_classify (js ''quota of this API_KEY'') = InvalidCredentialError"
    and l: "spec_classify (js ''Quota of this api_key'') = UnknownBackendError"
    by (simp_all add: classify_eval)
  show ?thesis
    using C1_error_classification [of "js ''429 quota exceeded''"]
      C1_error_classification [of "js ''invalid API_KEY''"]
      C1_error_classification [of "js ''connection reset''"]
      C1_error_classification [of "js ''blocked for safety''"]
      C1_error_classification [of "js ''quota of this API_KEY''"]
      C1_error_classification [of "js ''Quota of this api_key''"]
    by (simp only: q i u c f l simp_thms)
qed

section \<open>The retry\<close>

text \<open>
  Claim C2. When the first attempt of a chat request fails, a retry is attempted if and
  only if the error classifies as InvalidCredentialError or QuotaExceededError and the
  pool holds more than one key. When it is attempted the key index has moved to the next
  key; when it is not (in particular with exactly one key), the failure response of the
  caught error is sent at once and nothing but the three log lines happens.
\<close>

theorem C2_retry_policy:
  assumes "try_block w cfg s body = (Inl e, s1)"
  shows "(retry_attempted (log_error s1 e) (snd (post_api_chat w cfg s body)) \<longleftrightarrow>
            (spec_classify (exn_message e) = InvalidCredentialError
               \<or> spec_classify (exn_message e) = QuotaExceededError)
            \<and> length (apiKeys cfg) > 1)
       \<and> (if retry_attempted (log_error s1 e) (snd (post_api_chat w cfg s body))
          then currentApiKeyIndex (snd (post_api_chat w cfg s body)) =
                 (currentApiKeyIndex s1 + 1) mod length (apiKeys cfg)
          else post_api_chat w cfg s body = (failure_reply e, log_error s1 e))"
proof (cases "retry_condition (exn_message e) (apiKeys cfg)")
  case True
  then have len: "length (apiKeys cfg) > 1" by (simp add: retry_condition_def)
  obtain re s2 where r: "retry w cfg (log_error s1 e) = (Inl re, s2)"
    using retry_throws by blast
  have post: "post_api_chat w cfg s body =
      (failure_reply e, s2\<lparr>events := events s2 @ [Console (RetryFailed re)]\<rparr>)"
    using True r by (simp add: post_api_chat_caught[OF assms] catch_block_def)
  from retry_effect[OF len r] obtain rest where
    ev: "events s2 = events (log_error s1 e) @
        NewClient (apiKeys cfg ! ((currentApiKeyIndex (log_error s1 e) + 1) mod length (apiKeys cfg))) # rest"
    by blast
  have att: "retry_attempted (log_error s1 e) (snd (post_api_chat w cfg s body))"
    by (simp add: post retry_attempted_def ev)
  have idx: "currentApiKeyIndex s2 = (currentApiKeyIndex s1 + 1) mod length (apiKeys cfg)"
    using retry_effect[OF len r] by (simp add: log_error_def)
  show ?thesis using att True idx by (simp add: post retry_condition_spec)
next
  case False
  have post: "post_api_chat w cfg s body = (failure_reply e, log_error s1 e)"
    using False by (simp add: post_api_chat_caught[OF assms] catch_block_def)
  have "\<not> retry_attempted (log_error s1 e) (snd (post_api_chat w cfg s body))"
    by (simp add: post retry_attempted_def)
  then show ?thesis using False post by (simp add: retry_condition_spec)
qed

text \<open>
  A quota error with one key: no retry, the failure at once. The same error with two
  keys: a retry is attempted.
\<close>

theorem C2_witness:
  "fst (try_block quota_on_first_key one_key (startup quota_on_first_key one_key) hi_body) =
     Inl (LibraryError (js ''429 quota exceeded''))
   \<and> length (apiKeys one_key) = 1
   \<and> \<not> retry_attempted
        (log_error (snd (try_block quota_on_first_key one_key (startup quota_on_first_key one_key) hi_body))
           (LibraryError (js ''429 quota exceeded'')))
        (snd (post_api_chat quota_on_first_key one_key (startup quota_on_first_key one_key) hi_body))
   \<and> post_api_chat quota_on_first_key one_key (startup quota_on_first_key one_key) hi_body =
       (failure_reply (LibraryError (js ''429 quota exceeded'')),
        log_error (snd (try_block quota_on_first_key one_key (startup quota_on_first_key one_key) hi_body))
           (LibraryError (js ''429 quota exceeded'')))
   \<and> fst (try_block quota_on_first_key two_keys (startup quota_on_first_key two_keys) hi_body) =
     Inl (LibraryError (js ''429 quota exceeded''))
   \<and> retry_attempted
        (log_error (snd (try_block quota_on_first_key two_keys (startup quota_on_first_key two_keys) hi_body))
           (LibraryError (js ''429 quota exceeded'')))
        (snd (post_api_chat quota_on_first_key two_keys (startup quota_on_first_key two_keys) hi_body))"
proof -
  have t1: "try_block quota_on_first_key one_key (startup quota_on_first_key one_key) hi_body =
      (Inl (LibraryError (js ''429 quota exceeded'')),
       snd (try_block quota_on_first_key one_key (startup quota_on_first_key one_key) hi_body))"
    by (simp add: handler_defs quota_on_first_key_def one_key_def hi_body_def js_def)
  have t2: "try_block quota_on_first_key two_keys (startup quota_on_first_key two_keys) hi_body =
      (Inl (LibraryError (js ''429 quota exceeded'')),
       snd (try_block quota_on_first_key two_keys (startup quota_on_first_key two_keys) hi_body))"
    by (simp add: handler_defs quota_on_first_key_def two_keys_def hi_body_def js_def)
  have q: "spec_classify (js ''429 quota exceeded'') = QuotaExceededError"
    by (simp add: classify_eval)
  have n1: "length (apiKeys one_key) = 1" and n2: "length (apiKeys two_keys) = 2"
    by (simp_all add: apiKeys_def one_key_def two_keys_def js_def)
  have f1: "fst (try_block quota_on_first_key one_key (startup quota_on_first_key one_key) hi_body) =
     Inl (LibraryError (js ''429 quota exceeded''))"
    by (subst t1) simp
  have f2: "fst (try_block quota_on_first_key two_keys (startup quota_on_first_key two_keys) hi_body) =
     Inl (LibraryError (js ''429 quota exceeded''))"
    by (subst t2) simp
  show ?thesis
    using C2_retry_policy [OF t1] C2_retry_policy [OF t2] f1 f2
    by (simp add: q n1 n2 split: if_splits)
qed

text \<open>
  Claim C3. A chat request whose retry succeeds should answer with the retry's text: the
  key index advances (wrapping), the client is rebuilt with that key, a fresh session
  without history is opened on the first model identifier, the same message is sent
  again, and the response is a success carrying the second answer. The code does all
  but the last two steps. In the scenario of the specification (two keys, the first
  send refused for quota, a send under the second key would be answered) the handler
  switches to the second key, takes the model handle and opens the session, then throws
  on the identifier \<^verbatim>\<open>message\<close> before it sends anything: the caller gets the quota
  failure with status 500, and the index stays on the second key.
\<close>

theorem C3_retry_scenario:
  "post_api_chat quota_on_first_key two_keys (startup quota_on_first_key two_keys) hi_body =
   (Reply 500 (JObj [(js ''error'', JStr (js ''API quota exceeded. Please try again later.'')),
                     (js ''details'', JStr (js ''429 quota exceeded'')),
                     (js ''success'', JBool False)]),
    \<lparr>currentApiKeyIndex = 1, genAI = Some (Client (js ''key-2'')),
     events =
       [NewClient (js ''key-1''),
        GetGenerativeModel (Client (js ''key-1'')) (js ''gemini-2.5-flash''),
        StartChat (Model (Client (js ''key-1'')) (js ''gemini-2.5-flash'')) None,
        SendMessage (Chat (Model (Client (js ''key-1'')) (js ''gemini-2.5-flash'')) None)
          (JStr (js ''hi'')),
        Console (ErrorDetails (LibraryError (js ''429 quota exceeded''))),
        Console (ErrorMessage (js ''429 quota exceeded'')),
        Console (ErrorStack (LibraryError (js ''429 quota exceeded''))),
        NewClient (js ''key-2''),
        Console (Switched 2),
        GetGenerativeModel (Client (js ''key-2'')) (js ''gemini-2.5-flash''),
        StartChat (Model (Client (js ''key-2'')) (js ''gemini-2.5-flash'')) None,
        Console (RetryFailed (ReferenceError (js ''message is not defined'')))]\<rparr>)
   \<and> sendMessage quota_on_first_key []
        (Chat (Model (Client (js ''key-2'')) (js ''gemini-2.5-flash'')) None) (JStr (js ''hi'')) =
       Inr (js ''hello from key 2'')"
  by (simp add: handler_defs quota_on_first_key_def two_keys_def hi_body_def js_def)

text \<open>
  Claim C4. When the retry itself throws, the caller receives the failure of the first
  attempt: status 500, the text of the first error's class, the first error's raw
  message as details and \<^verbatim>\<open>success: false\<close>. The retry's error appears nowhere in
  the response; it is only written to the console.
\<close>

theorem C4_retry_failure:
  assumes "try_block w cfg s body = (Inl e, s1)"
    and "retry_condition (exn_message e) (apiKeys cfg)"
    and "retry w cfg (log_error s1 e) = (Inl re, s2)"
  shows "post_api_chat w cfg s body =
           (Reply 500 (JObj [(js ''error'', JStr (errorMessage (exn_message e))),
                             (js ''details'', JStr (exn_message e)),
                             (js ''success'', JBool False)]),
            s2\<lparr>events := events s2 @ [Console (RetryFailed re)]\<rparr>)"
  using assms by (simp add: post_api_chat_caught catch_block_def failure_reply_def)

text \<open>Two keys and a quota error: the retry throws, the caller reads the quota failure.\<close>

theorem C4_witness:
  "fst (try_block quota_on_first_key two_keys (startup quota_on_first_key two_keys) hi_body) =
     Inl (LibraryError (js ''429 quota exceeded''))
   \<and> retry_condition (js ''429 quota exceeded'') (apiKeys two_keys)
   \<and> fst (retry quota_on_first_key two_keys
        (log_error (snd (try_block quota_on_first_key two_keys (startup quota_on_first_key two_keys) hi_body))
           (LibraryError (js ''429 quota exceeded'')))) =
       Inl (ReferenceError (js ''message is not defined''))
   \<and> fst (post_api_chat quota_on_first_key two_keys (startup quota_on_first_key two_keys) hi_body) =
       Reply 500 (JObj [(js ''error'', JStr (js ''API quota exceeded. Please try again later.'')),
                        (js ''details'', JStr (js ''429 quota exceeded'')),
                        (js ''success'', JBool False)])
   \<and> last (events (snd (post_api_chat quota_on_first_key two_keys
         (startup quota_on_first_key two_keys) hi_body))) =
       Console (RetryFailed (ReferenceError (js ''message is not defined'')))"
proof -
  let ?e = "LibraryError (js ''429 quota exceeded'')"
  let ?t = "try_block quota_on_first_key two_keys (startup quota_on_first_key two_keys) hi_body"
  let ?r = "retry quota_on_first_key two_keys (log_error (snd ?t) ?e)"
  have t: "?t = (Inl ?e, snd ?t)"
    by (simp add: handler_defs quota_on_first_key_def two_keys_def hi_body_def js_def)
  have c: "retry_condition (exn_message ?e) (apiKeys two_keys)"
    by (simp add: retry_condition_def apiKeys_def two_keys_def js_def)
  have r: "?r = (Inl (ReferenceError (js ''message is not defined'')), snd ?r)"
    by (simp add: handler_defs quota_on_first_key_def two_keys_def hi_body_def js_def)
  have m: "errorMessage (js ''429 quota exceeded'') = js ''API quota exceeded. Please try again later.''"
    by (simp add: errorMessage_def js_def)
  have f: "fst ?t = Inl ?e" by (subst t) simp
  have g: "fst ?r = Inl (ReferenceError (js ''message is not defined''))" by (subst r) simp
  show ?thesis
    using C4_retry_failure [OF t c r] c f g by (simp add: m)
qed

section \<open>Validation and configuration\<close>

text \<open>
  Claim C5, as the code has it. When the body's \<^verbatim>\<open>message\<close> is missing or falsy
  (\<^verbatim>\<open>null\<close>, \<^verbatim>\<open>false\<close>, \<^verbatim>\<open>0\<close> or the empty string), the handler answers
  400 with \<^verbatim>\<open>Message is required\<close> and leaves the process state as it was: no model
  handle, no session, no send. The message is not trimmed before the test.
\<close>

theorem C5_missing_message:
  assumes "destructure body = Inr (m, h)"
    and "m \<in> {JUndefined, JNull, JBool False, JNum 0, JStr []}"
  shows "post_api_chat w cfg s body =
           (Reply 400 (JObj [(js ''error'', JStr (js ''Message is required'')),
                             (js ''success'', JBool False)]), s)"
proof -
  from assms(2) have "\<not> truthy m" by auto
  with assms(1) show ?thesis by (simp add: post_api_chat_def try_block_def)
qed

text \<open>A body without a message, and a body whose message is the empty string.\<close>

theorem C5_witness:
  "destructure (JObj []) = Inr (JUndefined, JArr [])
   \<and> post_api_chat echo_world one_key (startup echo_world one_key) (JObj []) =
       (Reply 400 (JObj [(js ''error'', JStr (js ''Message is required'')),
                         (js ''success'', JBool False)]), startup echo_world one_key)
   \<and> destructure (JObj [(js ''message'', JStr [])]) = Inr (JStr [], JArr [])
   \<and> post_api_chat echo_world one_key (startup echo_world one_key) (JObj [(js ''message'', JStr [])]) =
       (Reply 400 (JObj [(js ''error'', JStr (js ''Message is required'')),
                         (js ''success'', JBool False)]), startup echo_world one_key)"
proof -
  have d1: "destructure (JObj []) = Inr (JUndefined, JArr [])"
    by (simp add: destructure_def get_prop_def)
  have d2: "destructure (JObj [(js ''message'', JStr [])]) = Inr (JStr [], JArr [])"
    by (simp add: destructure_def get_prop_def js_def)
  show ?thesis
    using C5_missing_message [OF d1, of echo_world one_key "startup echo_world one_key"]
      C5_missing_message [OF d2, of echo_world one_key "startup echo_world one_key"] d1 d2
    by simp
qed

text \<open>
  A message of three spaces is empty after trimming, yet it passes the test of line 49:
  the handler sends it to the backend and answers 200.
\<close>

theorem C5_counterexample:
  "trim (js ''   '') = []
   \<and> post_api_chat echo_world one_key (startup echo_world one_key) blank_body =
       (Reply 200 (JObj [(js ''message'', JStr (js ''pong'')), (js ''success'', JBool True)]),
        \<lparr>currentApiKeyIndex = 0, genAI = Some (Client (js ''key-1'')),
         events =
           [NewClient (js ''key-1''),
            GetGenerativeModel (Client (js ''key-1'')) (js ''gemini-2.5-flash''),
            StartChat (Model (Client (js ''key-1'')) (js ''gemini-2.5-flash'')) None,
            SendMessage (Chat (Model (Client (js ''key-1'')) (js ''gemini-2.5-flash'')) None)
              (JStr (js ''   ''))]\<rparr>)"
  by (simp add: handler_defs echo_world_def one_key_def blank_body_def js_def trim_def
      is_whitespace_def)

text \<open>
  Claim C6. With an empty key pool, a chat request with a non-empty message is answered
  500 with the configuration error, and the process state stays as it was: no backend
  call is attempted.
\<close>

theorem C6_empty_pool:
  assumes "destructure body = Inr (m, h)" and "truthy m" and "apiKeys cfg = []"
  shows "post_api_chat w cfg s body =
           (Reply 500 (JObj
              [(js ''error'',
                JStr (js ''API key not configured. Please set GEMINI_API_KEY in server/.env file'')),
               (js ''success'', JBool False)]), s)"
  using assms by (simp add: post_api_chat_def try_block_def)

text \<open>No variable set, or the first one set to the empty string: the pool is empty.\<close>

theorem C6_witness:
  "destructure hi_body = Inr (JStr (js ''hi''), JArr [])
   \<and> truthy (JStr (js ''hi''))
   \<and> apiKeys no_keys = []
   \<and> apiKeys \<lparr>GEMINI_API_KEY = Some [], GEMINI_API_KEY_2 = None\<rparr> = []
   \<and> post_api_chat echo_world no_keys (startup echo_world no_keys) hi_body =
       (Reply 500 (JObj
          [(js ''error'',
            JStr (js ''API key not configured. Please set GEMINI_API_KEY in server/.env file'')),
           (js ''success'', JBool False)]), startup echo_world no_keys)
   \<and> events (startup echo_world no_keys) =
       [Console NoKeyWarning, Console NoKeyHint, NewClient []]"
proof -
  have d: "destructure hi_body = Inr (JStr (js ''hi''), JArr [])"
    by (simp add: destructure_def get_prop_def hi_body_def js_def)
  have t: "truthy (JStr (js ''hi''))" by (simp add: js_def)
  have k: "apiKeys no_keys = []" by (simp add: apiKeys_def no_keys_def)
  have k2: "apiKeys \<lparr>GEMINI_API_KEY = Some [], GEMINI_API_KEY_2 = None\<rparr> = []"
    by (simp add: apiKeys_def)
  have ev: "events (startup echo_world no_keys) = [Console NoKeyWarning, Console NoKeyHint, NewClient []]"
    by (simp add: startup_def apiKeys_def no_keys_def echo_world_def Let_def)
  show ?thesis
    using C6_empty_pool [OF d t k, of echo_world "startup echo_world no_keys"] d t k k2 ev
    by simp
qed

section \<open>History sanitization\<close>

text \<open>
  Claim C7. For every caller-supplied history of conversation turns, in either wire form,
  the handler normalizes each role (\<^verbatim>\<open>user\<close> stays, any other role becomes
  \<^verbatim>\<open>model\<close>), drops the turns whose text is empty after trimming, and passes the
  remaining turns to the backend in the caller's order: in the chat route, once the
  model handle is there, the next library call opens the session with exactly that list,
  and when the session opens the message is sent on it. Whatever the route does
  afterwards comes later in the trace. Whenever formatting any JSON history returns, it
  returns the sanitized list.
\<close>

theorem C7_history_sanitization:
  "formattedHistory (map turn_json ts) = Inr (spec_sanitize ts)
   \<and> (formattedHistory h = Inr r \<longrightarrow> r = sanitize h)
   \<and> (ts \<noteq> [] \<longrightarrow>
        open_chat w s m (JArr (map turn_json ts)) = start_chat w s m (Some (spec_sanitize ts))
        \<and> events (snd (open_chat w s m (JArr (map turn_json ts)))) =
            events s @ [StartChat m (Some (spec_sanitize ts))])
   \<and> (truthy msg \<and> apiKeys cfg \<noteq> [] \<and> select_model w s = (Inr mdl, s1) \<and> ts \<noteq> [] \<longrightarrow>
        events (snd (try_block w cfg s (chat_body msg (map turn_json ts)))) =
          events s1 @ StartChat mdl (Some (spec_sanitize ts)) #
            (case startChat w (events s1) mdl (Some (spec_sanitize ts)) of
               Some e \<Rightarrow> []
             | None \<Rightarrow> [SendMessage (Chat mdl (Some (spec_sanitize ts))) msg])
        \<and> (\<exists>rest. events (snd (post_api_chat w cfg s (chat_body msg (map turn_json ts)))) =
              events (snd (try_block w cfg s (chat_body msg (map turn_json ts)))) @ rest))
   \<and> (truthy msg \<and> apiKeys cfg \<noteq> [] \<and> select_model w s = (Inr mdl, s1) \<and> h \<noteq> []
        \<and> formattedHistory h = Inr r \<longrightarrow>
        events (snd (try_block w cfg s (chat_body msg h))) =
          events s1 @ StartChat mdl (Some (sanitize h)) #
            (case startChat w (events s1) mdl (Some (sanitize h)) of
               Some e \<Rightarrow> []
             | None \<Rightarrow> [SendMessage (Chat mdl (Some (sanitize h))) msg]))"
proof -
  have a: "formattedHistory (map turn_json ts) = Inr (spec_sanitize ts)"
    using formattedHistory_ok [of "map turn_json ts"]
    by (simp add: list_all_iff well_shaped_turn_json sanitize_turn_json)
  have b: "open_chat w s m (JArr (map turn_json ts)) = start_chat w s m (Some (spec_sanitize ts))"
    if "ts \<noteq> []"
    using that by (simp add: open_chat_def history_nonempty_def a)
  have c: "events (snd (start_chat w s m x)) = events s @ [StartChat m x]" for x
    by (simp add: start_chat_def split: option.splits)
  have d: "r = sanitize h" if "formattedHistory h = Inr r"
  proof (cases "list_all well_shaped h")
    case True
    with formattedHistory_ok that show ?thesis by simp
  next
    case False
    with formattedHistory_throws [of h] that show ?thesis by auto
  qed
  have e: "events (snd (try_block w cfg s (chat_body msg (map turn_json ts)))) =
          events s1 @ StartChat mdl (Some (spec_sanitize ts)) #
            (case startChat w (events s1) mdl (Some (spec_sanitize ts)) of
               Some e \<Rightarrow> []
             | None \<Rightarrow> [SendMessage (Chat mdl (Some (spec_sanitize ts))) msg])"
    if "truthy msg \<and> apiKeys cfg \<noteq> [] \<and> select_model w s = (Inr mdl, s1) \<and> ts \<noteq> []"
    using that try_block_history [of msg cfg w s mdl s1 "map turn_json ts" "spec_sanitize ts"] a
    by simp
  have f: "events (snd (try_block w cfg s (chat_body msg h))) =
          events s1 @ StartChat mdl (Some (sanitize h)) #
            (case startChat w (events s1) mdl (Some (sanitize h)) of
               Some e \<Rightarrow> []
             | None \<Rightarrow> [SendMessage (Chat mdl (Some (sanitize h))) msg])"
    if "truthy msg \<and> apiKeys cfg \<noteq> [] \<and> select_model w s = (Inr mdl, s1) \<and> h \<noteq> []
        \<and> formattedHistory h = Inr r"
  proof -
    from that d have "formattedHistory h = Inr (sanitize h)" by simp
    with that show ?thesis
      using try_block_history [of msg cfg w s mdl s1 h "sanitize h"] by simp
  qed
  note g = post_api_chat_events [of w cfg s "chat_body msg (map turn_json ts)"]
  have b': "ts \<noteq> [] \<longrightarrow>
        open_chat w s m (JArr (map turn_json ts)) = start_chat w s m (Some (spec_sanitize ts))
        \<and> events (snd (open_chat w s m (JArr (map turn_json ts)))) =
            events s @ [StartChat m (Some (spec_sanitize ts))]"
    using b c by simp
  from a d b' e f g show ?thesis by blast
qed

text \<open>
  The example of the specification: the empty turn is dropped and the role \<^verbatim>\<open>bot\<close>
  becomes \<^verbatim>\<open>model\<close>. Then a request whose history has an ordinary turn, a turn of
  white space only (space, tab, line feed, no-break space), a turn in the \<^verbatim>\<open>text\<close>
  form and an empty turn in that form: the session is opened with the first and the third
  turn, in that order, and the message is sent on it.
\<close>

theorem C7_witness:
  "formattedHistory
     [JObj [(js ''role'', JStr (js ''user'')), (js ''content'', JStr [])],
      JObj [(js ''role'', JStr (js ''bot'')), (js ''content'', JStr (js ''hi''))]] =
     Inr [\<lparr>role = js ''model'', parts = [Part (JStr (js ''hi''))]\<rparr>]
   \<and> events (snd (open_chat echo_world (startup echo_world one_key)
         (Model (Client (js ''key-1'')) (js ''gemini-2.5-flash''))
         (JArr [JObj [(js ''role'', JStr (js ''user'')), (js ''content'', JStr [])],
                JObj [(js ''role'', JStr (js ''bot'')), (js ''content'', JStr (js ''hi''))]]))) =
       [NewClient (js ''key-1''),
        StartChat (Model (Client (js ''key-1'')) (js ''gemini-2.5-flash''))
          (Some [\<lparr>role = js ''model'', parts = [Part (JStr (js ''hi''))]\<rparr>])]
   \<and> events (snd (try_block echo_world one_key (startup echo_world one_key)
         (JObj [(js ''message'', JStr (js ''next'')),
                (js ''history'',
                 JArr [JObj [(js ''role'', JStr (js ''user'')), (js ''content'', JStr (js ''hello''))],
                       JObj [(js ''role'', JStr (js ''model'')),
                             (js ''content'', JStr [0x20, 0x09, 0x0A, 0xA0])],
                       JObj [(js ''role'', JStr (js ''assistant'')), (js ''text'', JStr (js ''hi''))],
                       JObj [(js ''role'', JStr (js ''user'')), (js ''text'', JStr [])]])]))) =
       [NewClient (js ''key-1''),
        GetGenerativeModel (Client (js ''key-1'')) (js ''gemini-2.5-flash''),
        StartChat (Model (Client (js ''key-1'')) (js ''gemini-2.5-flash''))
          (Some [\<lparr>role = js ''user'', parts = [Part (JStr (js ''hello''))]\<rparr>,
                 \<lparr>role = js ''model'', parts = [Part (JStr (js ''hi''))]\<rparr>]),
        SendMessage
          (Chat (Model (Client (js ''key-1'')) (js ''gemini-2.5-flash''))
             (Some [\<lparr>role = js ''user'', parts = [Part (JStr (js ''hello''))]\<rparr>,
                    \<lparr>role = js ''model'', parts = [Part (JStr (js ''hi''))]\<rparr>]))
          (JStr (js ''next''))]"
proof -
  let ?ts = "[\<lparr>turn_role = js ''user'', turn_content = [], turn_as_text = False\<rparr>,
              \<lparr>turn_role = js ''bot'', turn_content = js ''hi'', turn_as_text = False\<rparr>]"
  let ?us = "[\<lparr>turn_role = js ''user'', turn_content = js ''hello'', turn_as_text = False\<rparr>,
              \<lparr>turn_role = js ''model'', turn_content = [0x20, 0x09, 0x0A, 0xA0],
                turn_as_text = False\<rparr>,
              \<lparr>turn_role = js ''assistant'', turn_content = js ''hi'', turn_as_text = True\<rparr>,
              \<lparr>turn_role = js ''user'', turn_content = [], turn_as_text = True\<rparr>]"
  let ?m = "Model (Client (js ''key-1'')) (js ''gemini-2.5-flash'')"
  let ?p = "\<lparr>currentApiKeyIndex = 0, genAI = Some (Client (js ''key-1'')),
      events = [NewClient (js ''key-1''),
                GetGenerativeModel (Client (js ''key-1'')) (js ''gemini-2.5-flash'')]\<rparr>"
  have s: "spec_sanitize ?ts = [\<lparr>role = js ''model'', parts = [Part (JStr (js ''hi''))]\<rparr>]"
    by (simp add: spec_sanitize_def trim_def is_whitespace_def js_def)
  have u: "spec_sanitize ?us =
      [\<lparr>role = js ''user'', parts = [Part (JStr (js ''hello''))]\<rparr>,
       \<lparr>role = js ''model'', parts = [Part (JStr (js ''hi''))]\<rparr>]"
    by (simp add: spec_sanitize_def trim_def is_whitespace_def js_def)
  have j: "map turn_json ?ts =
      [JObj [(js ''role'', JStr (js ''user'')), (js ''content'', JStr [])],
       JObj [(js ''role'', JStr (js ''bot'')), (js ''content'', JStr (js ''hi''))]]"
    by (simp add: turn_json_def)
  have k: "chat_body (JStr (js ''next'')) (map turn_json ?us) =
      JObj [(js ''message'', JStr (js ''next'')),
            (js ''history'',
             JArr [JObj [(js ''role'', JStr (js ''user'')), (js ''content'', JStr (js ''hello''))],
                   JObj [(js ''role'', JStr (js ''model'')),
                         (js ''content'', JStr [0x20, 0x09, 0x0A, 0xA0])],
                   JObj [(js ''role'', JStr (js ''assistant'')), (js ''text'', JStr (js ''hi''))],
                   JObj [(js ''role'', JStr (js ''user'')), (js ''text'', JStr [])]])]"
    by (simp add: chat_body_def turn_json_def)
  have e: "events (startup echo_world one_key) = [NewClient (js ''key-1'')]"
    by (simp add: startup_def apiKeys_def one_key_def echo_world_def Let_def js_def)
  have h: "truthy (JStr (js ''next'')) \<and> apiKeys one_key \<noteq> []
      \<and> select_model echo_world (startup echo_world one_key) = (Inr ?m, ?p) \<and> ?us \<noteq> []"
    by (simp add: select_model_def get_model_def startup_def apiKeys_def one_key_def echo_world_def
        Let_def js_def)
  have o: "startChat echo_world (events ?p) ?m (Some (spec_sanitize ?us)) = None"
    by (simp add: echo_world_def)
  note c7 = C7_history_sanitization [where ts = ?ts and w = echo_world
      and s = "startup echo_world one_key" and m = ?m]
  note c7' = C7_history_sanitization [where ts = ?us and w = echo_world and cfg = one_key
      and s = "startup echo_world one_key" and msg = "JStr (js ''next'')" and mdl = ?m and ?s1.0 = ?p]
  from c7 have a: "formattedHistory (map turn_json ?ts) = Inr (spec_sanitize ?ts)"
    by (rule conjunct1)
  from c7 have b: "events (snd (open_chat echo_world (startup echo_world one_key) ?m
         (JArr (map turn_json ?ts)))) =
       events (startup echo_world one_key) @ [StartChat ?m (Some (spec_sanitize ?ts))]"
    by blast
  from c7' h have c: "events (snd (try_block echo_world one_key (startup echo_world one_key)
         (chat_body (JStr (js ''next'')) (map turn_json ?us)))) =
       events ?p @ StartChat ?m (Some (spec_sanitize ?us)) #
         (case startChat echo_world (events ?p) ?m (Some (spec_sanitize ?us)) of
            Some e \<Rightarrow> []
          | None \<Rightarrow> [SendMessage (Chat ?m (Some (spec_sanitize ?us))) (JStr (js ''next''))])"
    by blast
  have a': "formattedHistory
     [JObj [(js ''role'', JStr (js ''user'')), (js ''content'', JStr [])],
      JObj [(js ''role'', JStr (js ''bot'')), (js ''content'', JStr (js ''hi''))]] =
     Inr [\<lparr>role = js ''model'', parts = [Part (JStr (js ''hi''))]\<rparr>]"
    using a by (simp only: j s)
  have b': "events (snd (open_chat echo_world (startup echo_world one_key) ?m
         (JArr [JObj [(js ''role'', JStr (js ''user'')), (js ''content'', JStr [])],
                JObj [(js ''role'', JStr (js ''bot'')), (js ''content'', JStr (js ''hi''))]]))) =
       [NewClient (js ''key-1''),
        StartChat ?m (Some [\<lparr>role = js ''model'', parts = [Part (JStr (js ''hi''))]\<rparr>])]"
    using b by (simp only: j s e append.simps)
  have c': "events (snd (try_block echo_world one_key (startup echo_world one_key)
         (JObj [(js ''message'', JStr (js ''next'')),
                (js ''history'',
                 JArr [JObj [(js ''role'', JStr (js ''user'')), (js ''content'', JStr (js ''hello''))],
                       JObj [(js ''role'', JStr (js ''model'')),
                             (js ''content'', JStr [0x20, 0x09, 0x0A, 0xA0])],
                       JObj [(js ''role'', JStr (js ''assistant'')), (js ''text'', JStr (js ''hi''))],
                       JObj [(js ''role'', JStr (js ''user'')), (js ''text'', JStr [])]])]))) =
       [NewClient (js ''key-1''),
        GetGenerativeModel (Client (js ''key-1'')) (js ''gemini-2.5-flash''),
        StartChat ?m
          (Some [\<lparr>role = js ''user'', parts = [Part (JStr (js ''hello''))]\<rparr>,
                 \<lparr>role = js ''model'', parts = [Part (JStr (js ''hi''))]\<rparr>]),
        SendMessage
          (Chat ?m
             (Some [\<lparr>role = js ''user'', parts = [Part (JStr (js ''hello''))]\<rparr>,
                    \<lparr>role = js ''model'', parts = [Part (JStr (js ''hi''))]\<rparr>]))
          (JStr (js ''next''))]"
    using c [unfolded k u] o [unfolded u] by simp
  from a' b' c' show ?thesis by blast
qed

text \<open>
  Claim C9, as the code has it. Formatting a history succeeds exactly when every turn is
  well shaped: not \<^verbatim>\<open>null\<close>, and with a string as its text, the text being the
  \<^verbatim>\<open>content\<close> field, or the \<^verbatim>\<open>text\<close> field when \<^verbatim>\<open>content\<close> is absent or
  falsy, or the empty string when both are. On such a history the result is the
  sanitized list; a turn with neither field has empty text and is filtered out. On any
  other history the formatting throws a TypeError.
\<close>

theorem C9_history_formatting:
  "(if list_all well_shaped h then formattedHistory h = Inr (sanitize h)
    else (\<exists>msg. formattedHistory h = Inl (TypeError msg)))
   \<and> (field t (js ''content'') = JUndefined \<longrightarrow>
        turn_text t = (if truthy (field t (js ''text'')) then field t (js ''text'') else JStr []))
   \<and> (field t (js ''content'') = JUndefined \<and> field t (js ''text'') = JUndefined \<longrightarrow>
        turn_text t = JStr [] \<and> sanitize [t] = [])"
proof -
  have a: "if list_all well_shaped h then formattedHistory h = Inr (sanitize h)
    else (\<exists>msg. formattedHistory h = Inl (TypeError msg))"
    using formattedHistory_ok formattedHistory_throws by simp
  have b: "turn_text t = (if truthy (field t (js ''text'')) then field t (js ''text'') else JStr [])"
    if "field t (js ''content'') = JUndefined"
    using that by (simp add: turn_text_def)
  have c: "turn_text t = JStr [] \<and> sanitize [t] = []"
    if "field t (js ''content'') = JUndefined \<and> field t (js ''text'') = JUndefined"
    using that by (simp add: turn_text_def sanitize_def blank_turn_def trim_def)
  from a b c show ?thesis by blast
qed

text \<open>
  Turns with only a \<^verbatim>\<open>text\<close> field, with no field at all, and a turn that is a
  number, followed by an ordinary turn.
\<close>

theorem C9_witness:
  "formattedHistory
     [JObj [(js ''text'', JStr (js ''hello''))], JObj [], JNum 7,
      JObj [(js ''role'', JStr (js ''user'')), (js ''content'', JStr (js ''x''))]] =
     Inr [\<lparr>role = js ''model'', parts = [Part (JStr (js ''hello''))]\<rparr>,
          \<lparr>role = js ''user'', parts = [Part (JStr (js ''x''))]\<rparr>]
   \<and> turn_text (JObj [(js ''text'', JStr (js ''hello''))]) = JStr (js ''hello'')
   \<and> sanitize [JObj []] = []"
proof -
  let ?h = "[JObj [(js ''text'', JStr (js ''hello''))], JObj [], JNum 7,
      JObj [(js ''role'', JStr (js ''user'')), (js ''content'', JStr (js ''x''))]]"
  have w: "list_all well_shaped ?h"
    by (simp add: well_shaped_def turn_text_def field_def js_def)
  have s: "sanitize ?h = [\<lparr>role = js ''model'', parts = [Part (JStr (js ''hello''))]\<rparr>,
          \<lparr>role = js ''user'', parts = [Part (JStr (js ''x''))]\<rparr>]"
    by (simp add: sanitize_def sanitized_turn_def blank_turn_def turn_text_def field_def trim_def
        is_whitespace_def js_def)
  have f1: "field (JObj [(js ''text'', JStr (js ''hello''))]) (js ''content'') = JUndefined"
    and f2: "field (JObj [(js ''text'', JStr (js ''hello''))]) (js ''text'') = JStr (js ''hello'')"
    and f3: "field (JObj []) (js ''content'') = JUndefined"
    and f4: "field (JObj []) (js ''text'') = JUndefined"
    and t: "truthy (JStr (js ''hello''))"
    by (simp_all add: field_def js_def)
  show ?thesis
    using C9_history_formatting [of ?h "JObj [(js ''text'', JStr (js ''hello''))]"]
      C9_history_formatting [of ?h "JObj []"]
    by (simp only: w s f1 f2 f3 f4 t if_True simp_thms)
qed

text \<open>
  A turn whose content is the number 5, and a turn that is \<^verbatim>\<open>null\<close>: the formatting
  throws. The catch block of the handler turns the exception into a 500 response.
\<close>

theorem C9_counterexample:
  "formattedHistory [JObj [(js ''role'', JStr (js ''user'')), (js ''content'', JNum 5)]] =
     Inl (TypeError (js ''msg.parts[0].text.trim is not a function''))
   \<and> formattedHistory [JNull] =
     Inl (TypeError (js ''Cannot read properties of null (reading 'role')''))
   \<and> fst (post_api_chat echo_world one_key (startup echo_world one_key)
        (JObj [(js ''message'', JStr (js ''hi'')),
               (js ''history'',
                JArr [JObj [(js ''role'', JStr (js ''user'')), (js ''content'', JNum 5)]])])) =
     Reply 500 (JObj [(js ''error'', JStr (js ''Failed to get response from AI'')),
                      (js ''details'', JStr (js ''msg.parts[0].text.trim is not a function'')),
                      (js ''success'', JBool False)])"
  by (simp add: handler_defs echo_world_def one_key_def js_def)

section \<open>The models route\<close>

text \<open>
  Claim C8, as the code has it. \<^verbatim>\<open>GET /api/models\<close> calls the backend with the first
  environment variable itself: the URL fetched is the list-models address followed by
  that key, whatever the key index and the current client are, and the route changes
  neither. Whenever the fetch and the parse of its body return a document, the response
  is 200 with \<^verbatim>\<open>success: true\<close> and \<^verbatim>\<open>models\<close>, the \<^verbatim>\<open>models\<close> of the
  document or \<^verbatim>\<open>[]\<close> when it has none. The response is 500 when the variable is
  unset or empty, when the fetch or the parse throws, and when the document is
  \<^verbatim>\<open>null\<close>.
\<close>

theorem C8_models_route:
  "get_api_models w cfg (s\<lparr>currentApiKeyIndex := i, genAI := g\<rparr>) =
     (fst (get_api_models w cfg s), (snd (get_api_models w cfg s))\<lparr>currentApiKeyIndex := i, genAI := g\<rparr>)
   \<and> (GEMINI_API_KEY cfg = Some key \<and> key \<noteq> [] \<longrightarrow>
        snd (get_api_models w cfg s) =
          s\<lparr>events := events s @
               [Fetch (js ''https://generativelanguage.googleapis.com/v1/models?key='' @ key)]\<rparr>
        \<and> (\<forall>data ms.
              fetch w (events s) (js ''https://generativelanguage.googleapis.com/v1/models?key='' @ key) =
                Inr data
              \<and> get_prop data (js ''models'') = Inr ms \<longrightarrow>
              fst (get_api_models w cfg s) =
                Reply 200 (JObj [(js ''models'', if truthy ms then ms else JArr []),
                                 (js ''success'', JBool True)]))
        \<and> (\<forall>data e.
              fetch w (events s) (js ''https://generativelanguage.googleapis.com/v1/models?key='' @ key) =
                Inr data
              \<and> get_prop data (js ''models'') = Inl e \<longrightarrow>
              fst (get_api_models w cfg s) =
                Reply 500 (JObj [(js ''error'', JStr (js ''Failed to fetch models'')),
                                 (js ''details'', JStr (exn_message e)),
                                 (js ''success'', JBool False)]))
        \<and> (\<forall>e.
              fetch w (events s) (js ''https://generativelanguage.googleapis.com/v1/models?key='' @ key) =
                Inl e \<longrightarrow>
              fst (get_api_models w cfg s) =
                Reply 500 (JObj [(js ''error'', JStr (js ''Failed to fetch models'')),
                                 (js ''details'', JStr (exn_message e)),
                                 (js ''success'', JBool False)])))
   \<and> (GEMINI_API_KEY cfg = None \<or> GEMINI_API_KEY cfg = Some [] \<longrightarrow>
        get_api_models w cfg s =
          (Reply 500 (JObj [(js ''error'', JStr (js ''API key not configured'')),
                            (js ''success'', JBool False)]), s))"
proof -
  let ?url = "js ''https://generativelanguage.googleapis.com/v1/models?key='' @ key"
  have u: "models_url key = ?url" by (simp add: models_url_def)
  have a: "get_api_models w cfg (s\<lparr>currentApiKeyIndex := i, genAI := g\<rparr>) =
     (fst (get_api_models w cfg s), (snd (get_api_models w cfg s))\<lparr>currentApiKeyIndex := i, genAI := g\<rparr>)"
    by (simp add: get_api_models_def split: option.splits sum.splits)
  have b: "snd (get_api_models w cfg s) = s\<lparr>events := events s @ [Fetch ?url]\<rparr>"
    if "GEMINI_API_KEY cfg = Some key \<and> key \<noteq> []"
    using that by (simp add: get_api_models_def u split: sum.splits)
  have c: "fst (get_api_models w cfg s) =
                Reply 200 (JObj [(js ''models'', if truthy ms then ms else JArr []),
                                 (js ''success'', JBool True)])"
    if "GEMINI_API_KEY cfg = Some key \<and> key \<noteq> []"
      and "fetch w (events s) ?url = Inr data \<and> get_prop data (js ''models'') = Inr ms"
    for data ms
    using that by (simp add: get_api_models_def u)
  have c': "fst (get_api_models w cfg s) =
                Reply 500 (JObj [(js ''error'', JStr (js ''Failed to fetch models'')),
                                 (js ''details'', JStr (exn_message e)),
                                 (js ''success'', JBool False)])"
    if "GEMINI_API_KEY cfg = Some key \<and> key \<noteq> []"
      and "fetch w (events s) ?url = Inr data \<and> get_prop data (js ''models'') = Inl e"
    for data e
    using that by (simp add: get_api_models_def fetch_failed_def u)
  have d: "fst (get_api_models w cfg s) =
                Reply 500 (JObj [(js ''error'', JStr (js ''Failed to fetch models'')),
                                 (js ''details'', JStr (exn_message e)),
                                 (js ''success'', JBool False)])"
    if "GEMINI_API_KEY cfg = Some key \<and> key \<noteq> []"
      and "fetch w (events s) ?url = Inl e"
    for e
    using that by (simp add: get_api_models_def fetch_failed_def u)
  have e: "get_api_models w cfg s =
          (Reply 500 (JObj [(js ''error'', JStr (js ''API key not configured'')),
                            (js ''success'', JBool False)]), s)"
    if "GEMINI_API_KEY cfg = None \<or> GEMINI_API_KEY cfg = Some []"
    using that by (auto simp: get_api_models_def)
  from a b c c' d e show ?thesis by blast
qed

text \<open>
  The index on the second key, and the URL still carries the first; a fetch that throws;
  and a pool made of the second variable only, for which the route reports no key.
\<close>

theorem C8_witness:
  "get_api_models echo_world two_keys
      \<lparr>currentApiKeyIndex = 1, genAI = Some (Client (js ''key-2'')), events = []\<rparr> =
     (Reply 200 (JObj [(js ''models'', JArr [JStr (js ''gemini-2.5-flash'')]),
                       (js ''success'', JBool True)]),
      \<lparr>currentApiKeyIndex = 1, genAI = Some (Client (js ''key-2'')),
       events = [Fetch (js ''https://generativelanguage.googleapis.com/v1/models?key=key-1'')]\<rparr>)
   \<and> fst (get_api_models quota_on_first_key two_keys
      \<lparr>currentApiKeyIndex = 1, genAI = Some (Client (js ''key-2'')), events = []\<rparr>) =
     Reply 500 (JObj [(js ''error'', JStr (js ''Failed to fetch models'')),
                      (js ''details'', JStr (js ''fetch failed'')),
                      (js ''success'', JBool False)])
   \<and> apiKeys \<lparr>GEMINI_API_KEY = None, GEMINI_API_KEY_2 = Some (js ''key-2'')\<rparr> = [js ''key-2'']
   \<and> get_api_models echo_world \<lparr>GEMINI_API_KEY = None, GEMINI_API_KEY_2 = Some (js ''key-2'')\<rparr>
      \<lparr>currentApiKeyIndex = 0, genAI = Some (Client (js ''key-2'')), events = []\<rparr> =
     (Reply 500 (JObj [(js ''error'', JStr (js ''API key not configured'')),
                       (js ''success'', JBool False)]),
      \<lparr>currentApiKeyIndex = 0, genAI = Some (Client (js ''key-2'')), events = []\<rparr>)"
proof -
  let ?s = "\<lparr>currentApiKeyIndex = 1, genAI = Some (Client (js ''key-2'')), events = []\<rparr>"
  let ?z = "\<lparr>currentApiKeyIndex = 0, genAI = Some (Client (js ''key-2'')), events = []\<rparr>"
  let ?c = "\<lparr>GEMINI_API_KEY = None, GEMINI_API_KEY_2 = Some (js ''key-2'')\<rparr>"
  let ?data = "JObj [(js ''models'', JArr [JStr (js ''gemini-2.5-flash'')])]"
  let ?url = "js ''https://generativelanguage.googleapis.com/v1/models?key='' @ js ''key-1''"
  have k: "GEMINI_API_KEY two_keys = Some (js ''key-1'') \<and> js ''key-1'' \<noteq> []"
    by (simp add: two_keys_def js_def)
  have u: "?url = js ''https://generativelanguage.googleapis.com/v1/models?key=key-1''"
    by (simp add: js_def)
  have f1: "fetch echo_world (events ?s) ?url = Inr ?data
      \<and> get_prop ?data (js ''models'') = Inr (JArr [JStr (js ''gemini-2.5-flash'')])"
    by (simp add: echo_world_def get_prop_def)
  have f2: "fetch quota_on_first_key (events ?s) ?url = Inl (LibraryError (js ''fetch failed''))"
    by (simp add: quota_on_first_key_def)
  have n: "GEMINI_API_KEY ?c = None \<or> GEMINI_API_KEY ?c = Some []" by simp
  have a: "apiKeys ?c = [js ''key-2'']" by (simp add: apiKeys_def js_def)
  note c1 = C8_models_route [where w = echo_world and cfg = two_keys and s = ?s and key = "js ''key-1''"]
  note c2 = C8_models_route [where w = quota_on_first_key and cfg = two_keys and s = ?s
      and key = "js ''key-1''"]
  note c3 = C8_models_route [where w = echo_world and cfg = ?c and s = ?z]
  from c1 k f1 have g1: "fst (get_api_models echo_world two_keys ?s) =
      Reply 200 (JObj [(js ''models'', if truthy (JArr [JStr (js ''gemini-2.5-flash'')])
                          then JArr [JStr (js ''gemini-2.5-flash'')] else JArr []),
                       (js ''success'', JBool True)])"
    by blast
  from c1 k have g2: "snd (get_api_models echo_world two_keys ?s) =
      ?s\<lparr>events := events ?s @ [Fetch ?url]\<rparr>"
    by blast
  from c2 k f2 have g3: "fst (get_api_models quota_on_first_key two_keys ?s) =
      Reply 500 (JObj [(js ''error'', JStr (js ''Failed to fetch models'')),
                      (js ''details'', JStr (exn_message (LibraryError (js ''fetch failed'')))),
                      (js ''success'', JBool False)])"
    by blast
  from c3 n have g4: "get_api_models echo_world ?c ?z =
     (Reply 500 (JObj [(js ''error'', JStr (js ''API key not configured'')),
                       (js ''success'', JBool False)]), ?z)"
    by blast
  have g12: "get_api_models echo_world two_keys ?s =
     (Reply 200 (JObj [(js ''models'', JArr [JStr (js ''gemini-2.5-flash'')]),
                       (js ''success'', JBool True)]),
      \<lparr>currentApiKeyIndex = 1, genAI = Some (Client (js ''key-2'')),
       events = [Fetch (js ''https://generativelanguage.googleapis.com/v1/models?key=key-1'')]\<rparr>)"
    using g1 g2 [unfolded u] by (simp add: prod_eq_iff)
  have g3': "fst (get_api_models quota_on_first_key two_keys ?s) =
     Reply 500 (JObj [(js ''error'', JStr (js ''Failed to fetch models'')),
                      (js ''details'', JStr (js ''fetch failed'')),
                      (js ''success'', JBool False)])"
    using g3 by simp
  from g12 g3' a g4 show ?thesis by blast
qed

text \<open>
  The backend fails the list request and says so in an error document. The claim
  promises status 500 for a failure; the route answers 200 with \<^verbatim>\<open>success: true\<close>
  and an empty list.
\<close>

theorem C8_counterexample:
  "fetch no_quota_left [NewClient (js ''key-1'')]
     (js ''https://generativelanguage.googleapis.com/v1/models?key=key-1'') =
     Inr (JObj [(js ''error'',
                 JObj [(js ''code'', JNum 429), (js ''status'', JStr (js ''RESOURCE_EXHAUSTED''))])])
   \<and> get_api_models no_quota_left two_keys (startup no_quota_left two_keys) =
     (Reply 200 (JObj [(js ''models'', JArr []), (js ''success'', JBool True)]),
      \<lparr>currentApiKeyIndex = 0, genAI = Some (Client (js ''key-1'')),
       events =
         [NewClient (js ''key-1''),
          Fetch (js ''https://generativelanguage.googleapis.com/v1/models?key=key-1'')]\<rparr>)"
  by (simp add: get_api_models_def models_url_def get_prop_def startup_def apiKeys_def
      no_quota_left_def two_keys_def js_def Let_def)

section \<open>The key index\<close>

text \<open>
  Claim C10. The key index is always a valid pool index: it starts at 0, and after any
  sequence of requests \<open>0 \<le> currentApiKeyIndex < max 1 (pool size)\<close>.
  \<^verbatim>\<open>switchApiKey\<close> does nothing when the pool has at most one key and advances the
  index modulo the pool size otherwise; it and every route keep the index in range.
\<close>

theorem C10_cursor_in_range:
  "currentApiKeyIndex (startup w cfg) = 0
   \<and> currentApiKeyIndex (run w cfg (startup w cfg) reqs) < max 1 (length (apiKeys cfg))
   \<and> (length (apiKeys cfg) \<le> 1 \<longrightarrow> switchApiKey w cfg s = (None, s))
   \<and> (length (apiKeys cfg) > 1 \<longrightarrow>
        currentApiKeyIndex (snd (switchApiKey w cfg s)) =
          (currentApiKeyIndex s + 1) mod length (apiKeys cfg))
   \<and> (currentApiKeyIndex s < max 1 (length (apiKeys cfg)) \<longrightarrow>
        currentApiKeyIndex (snd (switchApiKey w cfg s)) < max 1 (length (apiKeys cfg))
        \<and> currentApiKeyIndex (snd (serve w cfg s r)) < max 1 (length (apiKeys cfg)))"
proof -
  have "cursor_in_range cfg (startup w cfg)"
    by (simp add: cursor_in_range_def startup_index)
  then have "cursor_in_range cfg (run w cfg (startup w cfg) reqs)"
    by (rule run_inv)
  then have a: "currentApiKeyIndex (run w cfg (startup w cfg) reqs) < max 1 (length (apiKeys cfg))"
    by (simp add: cursor_in_range_def)
  have b: "switchApiKey w cfg s = (None, s)" if "length (apiKeys cfg) \<le> 1"
    using that by (simp add: switchApiKey_def)
  have c: "currentApiKeyIndex (snd (switchApiKey w cfg s)) =
          (currentApiKeyIndex s + 1) mod length (apiKeys cfg)" if "length (apiKeys cfg) > 1"
    using that switchApiKey_index [of cfg w s "fst (switchApiKey w cfg s)" "snd (switchApiKey w cfg s)"]
    by simp
  have d: "currentApiKeyIndex (snd (switchApiKey w cfg s)) < max 1 (length (apiKeys cfg))
        \<and> currentApiKeyIndex (snd (serve w cfg s r)) < max 1 (length (apiKeys cfg))"
    if "currentApiKeyIndex s < max 1 (length (apiKeys cfg))"
    using that switchApiKey_inv [of cfg s w] serve_inv [of cfg s w r]
    by (simp add: cursor_in_range_def)
  from a b c d show ?thesis by (simp add: startup_index)
qed

text \<open>Two keys and a backend without quota: the index goes to 1 and wraps back to 0.\<close>

theorem C10_witness:
  "currentApiKeyIndex (startup no_quota_left two_keys) = 0
   \<and> currentApiKeyIndex (run no_quota_left two_keys (startup no_quota_left two_keys)
        [PostChat hi_body]) = 1
   \<and> currentApiKeyIndex (run no_quota_left two_keys (startup no_quota_left two_keys)
        [PostChat hi_body, GetModels, PostChat hi_body, GetHealth]) = 0
   \<and> max 1 (length (apiKeys two_keys)) = 2
   \<and> currentApiKeyIndex (run no_quota_left one_key (startup no_quota_left one_key)
        [PostChat hi_body, PostChat hi_body]) < max 1 (length (apiKeys one_key))
   \<and> switchApiKey no_quota_left one_key (startup no_quota_left one_key) =
       (None, startup no_quota_left one_key)"
proof -
  have n1: "length (apiKeys one_key) = 1" and n2: "length (apiKeys two_keys) = 2"
    by (simp_all add: apiKeys_def one_key_def two_keys_def js_def)
  have r1: "currentApiKeyIndex (run no_quota_left two_keys (startup no_quota_left two_keys)
        [PostChat hi_body]) = 1"
    by (simp add: handler_defs no_quota_left_def two_keys_def hi_body_def js_def)
  have r2: "currentApiKeyIndex (run no_quota_left two_keys (startup no_quota_left two_keys)
        [PostChat hi_body, GetModels, PostChat hi_body, GetHealth]) = 0"
    by (simp add: handler_defs get_api_models_def get_api_health_def models_url_def fetch_failed_def
        no_quota_left_def two_keys_def hi_body_def js_def)
  have m2: "max 1 (length (apiKeys two_keys)) = 2" by (simp add: n2)
  note c1 = C10_cursor_in_range [where w = no_quota_left and cfg = one_key
      and reqs = "[PostChat hi_body, PostChat hi_body]" and s = "startup no_quota_left one_key"]
  note c2 = C10_cursor_in_range [where w = no_quota_left and cfg = two_keys]
  from c2 have g0: "currentApiKeyIndex (startup no_quota_left two_keys) = 0"
    by (rule conjunct1)
  from c1 have g1: "currentApiKeyIndex (run no_quota_left one_key (startup no_quota_left one_key)
        [PostChat hi_body, PostChat hi_body]) < max 1 (length (apiKeys one_key))"
    by blast
  from c1 n1 have g2: "switchApiKey no_quota_left one_key (startup no_quota_left one_key) =
       (None, startup no_quota_left one_key)"
    by auto
  from g0 r1 r2 m2 g1 g2 show ?thesis by blast
qed

end
